theory Spec2Isabelle
  imports Main
begin

section \<open>The Chrome crawler of w3af: data model\<close>

text \<open>
  The theory embeds \<^verbatim>\<open>w3af/core/controllers/chrome/crawler/main.py\<close>, the class
  \<^verbatim>\<open>ChromeCrawler\<close>. The crawler drives collaborators that live in other modules
  (the chrome pool, the instrumented chrome instances, the crawl strategies, the output
  manager). Every call to a collaborator is recorded, in program order, as an event of a
  trace, and what a fallible collaborator answers is given by an environment: a record
  of functions from the trace so far (and the call's arguments) to the answer. A theorem
  that holds for every environment holds whatever the collaborators do.

  Python objects are referred to by identity: a chrome instance, a traffic queue, a uri
  opener and a web spider are natural numbers.
\<close>

type_synonym url = string
type_synonym chrome = nat
type_synonym queue = nat
type_synonym uri_opener = nat
type_synonym web_spider = nat

text \<open>
  Exceptions. The value carried is the exception's message, what \<^verbatim>\<open>"%s" % e\<close> prints.
  The type stands for everything a call can raise: the classes the module names,
  \<open>OtherException\<close> for every other subclass of \<^verbatim>\<open>Exception\<close>, and the three built-in
  classes that derive from \<^verbatim>\<open>BaseException\<close> and not from \<^verbatim>\<open>Exception\<close>
  (\<^verbatim>\<open>KeyboardInterrupt\<close>, \<^verbatim>\<open>SystemExit\<close>, \<^verbatim>\<open>GeneratorExit\<close>). The named classes are
  taken to be unrelated by inheritance except that both interface classes are caught
  together wherever the source catches one of them.
\<close>

datatype exn =
    ChromeInterfaceException string
  | ChromeInterfaceTimeout string
  | ChromePoolException string
  | ChromeCrawlerException string
  | AssertionError string
  | OtherException string
  | KeyboardInterrupt string
  | SystemExit string
  | GeneratorExit string

fun str_exn :: "exn \<Rightarrow> string" where
  "str_exn (ChromeInterfaceException m) = m"
| "str_exn (ChromeInterfaceTimeout m) = m"
| "str_exn (ChromePoolException m) = m"
| "str_exn (ChromeCrawlerException m) = m"
| "str_exn (AssertionError m) = m"
| "str_exn (OtherException m) = m"
| "str_exn (KeyboardInterrupt m) = m"
| "str_exn (SystemExit m) = m"
| "str_exn (GeneratorExit m) = m"

text \<open>
  \<^verbatim>\<open>except Exception, e\<close>: the handler catches the instances of \<^verbatim>\<open>Exception\<close>, and lets
  \<^verbatim>\<open>KeyboardInterrupt\<close>, \<^verbatim>\<open>SystemExit\<close> and \<^verbatim>\<open>GeneratorExit\<close> pass.
\<close>

fun is_exception :: "exn \<Rightarrow> bool" where
  "is_exception (KeyboardInterrupt m) = False"
| "is_exception (SystemExit m) = False"
| "is_exception (GeneratorExit m) = False"
| "is_exception e = True"

text \<open>\<^verbatim>\<open>except (ChromeInterfaceException, ChromeInterfaceTimeout) as cie\<close>\<close>

fun is_chrome_interface :: "exn \<Rightarrow> bool" where
  "is_chrome_interface (ChromeInterfaceException m) = True"
| "is_chrome_interface (ChromeInterfaceTimeout m) = True"
| "is_chrome_interface e = False"

text \<open>\<^verbatim>\<open>except ChromePoolException as cpe\<close>\<close>

fun is_chrome_pool_exception :: "exn \<Rightarrow> bool" where
  "is_chrome_pool_exception (ChromePoolException m) = True"
| "is_chrome_pool_exception e = False"

text \<open>The values the public methods return.\<close>

datatype py_value = PyNone | PyBool bool | PyList "string list"

text \<open>
  The crawl strategies of \<^verbatim>\<open>__init__\<close>: \<^verbatim>\<open>ChromeCrawlerJS(self._pool)\<close> and
  \<^verbatim>\<open>ChromeCrawlerDOMDump(self._pool, web_spider)\<close>. There is one pool, so the pool
  argument is left out.
\<close>

datatype strategy = ChromeCrawlerJS | ChromeCrawlerDOMDump web_spider

text \<open>
  \<^verbatim>\<open>CrawlerHTTPTrafficQueue(http_traffic_queue, debugging_id=debugging_id)\<close>: the
  wrapper around the caller's queue that is handed to the pool.
\<close>

record crawler_http_traffic_queue =
  cq_queue :: queue
  cq_debugging_id :: string

text \<open>
  The messages sent to \<^verbatim>\<open>om.out.debug\<close>, one constructor for each format string of the
  module, with the format's arguments (the elapsed seconds of the "did not successfully
  load" message, a float, are left out), and the \<^verbatim>\<open>TookLine\<close> objects whose
  \<^verbatim>\<open>send()\<close> is called.
\<close>

datatype log_msg =
    GettingChrome url string
  | FailedGetChrome exn string
  | UsingChrome chrome url string
  | FailedLoad url chrome exn string
  | WaitException url chrome exn string
  | NotLoaded url string
  | FailedStop chrome exn string
  | FailedInitialPageLoad url exn string
  | FailedCrawl url chrome exn string
  | FailedAboutBlank chrome exn string
  | Extracted nat url chrome string

datatype took_line =
    TookCleanup
  | TookStrategy strategy url string
  | TookGetChrome
  | TookLoadUrl url
  | TookStop

text \<open>
  The events of a trace: every call the crawler makes on a collaborator, with the
  call's outcome where the call can fail (\<open>Inl\<close> an exception raised by the call).
\<close>

datatype event =
    RandAlnum nat string
  | Debug log_msg
  | TookLineSend took_line
  | PoolGet crawler_http_traffic_queue "exn + chrome"
  | PoolFree chrome
  | PoolRemove chrome
  | PoolTerminate
  | SetDebuggingId chrome string
  | LoadUrl chrome url "exn + unit"
  | WaitForLoad chrome "exn + bool"
  | Stop chrome "exn + unit"
  | StrategyCrawl strategy chrome url string "exn + unit"
  | LoadAboutBlank chrome "exn + unit"
  | GetConsoleMessages chrome "exn + string list"
  | GetJsErrors chrome "exn + string list"
  | Print string

text \<open>
  Modelled from the spec: the class \<^verbatim>\<open>ChromePool\<close> (\<^verbatim>\<open>w3af/core/controllers/chrome/pool.py\<close>)
  is defined in another module. The spec describes it as a bounded set of workers
  with an idle set, \<^verbatim>\<open>get\<close> (borrow a worker), \<^verbatim>\<open>free\<close> (return a healthy worker to the
  idle set), \<^verbatim>\<open>remove\<close> (permanent eviction) and \<^verbatim>\<open>terminate\<close> (shut down all workers).
  \<open>pool_free_set\<close> is the attribute \<^verbatim>\<open>_free\<close> that the crawler reads, as the list
  \<^verbatim>\<open>list(self._pool._free)\<close>.
\<close>

record chrome_pool =
  pool_uri_opener :: uri_opener
  pool_max_instances :: "nat option"
  pool_free_set :: "chrome list"
  pool_in_use :: "chrome list"

text \<open>
  The environment. \<open>new_chrome_pool\<close> is the constructor \<^verbatim>\<open>ChromePool(uri_opener,
  max_instances=...)\<close>; \<open>random_choice\<close> is the random source behind \<^verbatim>\<open>rand_alnum\<close>;
  \<open>chrome_str\<close> is what \<^verbatim>\<open>"%s" % chrome\<close> prints; \<open>queue_count\<close> is
  \<^verbatim>\<open>chrome.http_traffic_queue.count\<close>; the others are the outcomes of the calls of the
  same name.
\<close>

record env =
  new_chrome_pool :: "uri_opener \<Rightarrow> nat option \<Rightarrow> chrome_pool"
  random_choice :: "event list \<Rightarrow> nat \<Rightarrow> nat"
  chrome_str :: "chrome \<Rightarrow> string"
  pool_get_result :: "event list \<Rightarrow> crawler_http_traffic_queue \<Rightarrow> exn + chrome"
  load_url_result :: "event list \<Rightarrow> chrome \<Rightarrow> url \<Rightarrow> exn + unit"
  wait_for_load_result :: "event list \<Rightarrow> chrome \<Rightarrow> exn + bool"
  stop_result :: "event list \<Rightarrow> chrome \<Rightarrow> exn + unit"
  strategy_crawl_result :: "event list \<Rightarrow> strategy \<Rightarrow> chrome \<Rightarrow> url \<Rightarrow> string \<Rightarrow> exn + unit"
  load_about_blank_result :: "event list \<Rightarrow> chrome \<Rightarrow> exn + unit"
  queue_count :: "event list \<Rightarrow> chrome \<Rightarrow> nat"
  console_messages_result :: "event list \<Rightarrow> chrome \<Rightarrow> exn + string list"
  js_errors_result :: "event list \<Rightarrow> chrome \<Rightarrow> exn + string list"

text \<open>
  The attributes of a \<^verbatim>\<open>ChromeCrawler\<close> object. The attribute \<^verbatim>\<open>_pool\<close> refers to the
  one pool, whose state is in the world below.
\<close>

record chrome_crawler =
  uri_opener :: "uri_opener option"
  web_spider :: "web_spider option"
  crawl_strategies :: "strategy list"

text \<open>The mutable world outside the crawler object: the pool and the trace.\<close>

record world =
  pool :: chrome_pool
  trace :: "event list"

definition emit :: "event \<Rightarrow> world \<Rightarrow> world" where
  "emit ev w = w\<lparr>trace := trace w @ [ev]\<rparr>"

section \<open>Collaborators\<close>

text \<open>
  Modelled from the spec: \<^verbatim>\<open>rand_alnum\<close> (\<^verbatim>\<open>w3af/core/data/fuzzer/utils.py\<close>) is defined
  in another module; the spec calls its result "random fixed-length alphanumeric".
  Each character is a random choice among the ASCII letters and digits.
\<close>

definition alnum_chars :: string where
  "alnum_chars = ''abcdefghijklmnopqrstuvwxyzABCDEFGHIJKLMNOPQRSTUVWXYZ0123456789''"

definition rand_alnum :: "env \<Rightarrow> event list \<Rightarrow> nat \<Rightarrow> string" where
  "rand_alnum en h n = map (\<lambda>i. alnum_chars ! (random_choice en h i mod 62)) [0..<n]"

text \<open>
  Modelled from the spec: the operations of \<^verbatim>\<open>ChromePool\<close>. A worker
  handed out by \<^verbatim>\<open>get\<close> leaves the idle set and is in use; \<^verbatim>\<open>free\<close> returns it to the
  idle set; \<^verbatim>\<open>remove\<close> evicts it from both; \<^verbatim>\<open>terminate\<close> shuts down all workers.
  Whether \<^verbatim>\<open>get\<close> finds a worker, and which one, is the environment's answer.
\<close>

definition pool_get :: "env \<Rightarrow> crawler_http_traffic_queue \<Rightarrow> world \<Rightarrow> (exn + chrome) \<times> world" where
  "pool_get en cq w =
     (let r = pool_get_result en (trace w) cq in
      case r of
        Inl e \<Rightarrow> (Inl e, emit (PoolGet cq r) w)
      | Inr c \<Rightarrow> (Inr c, emit (PoolGet cq r)
                   (w\<lparr>pool := (pool w)\<lparr>pool_free_set := removeAll c (pool_free_set (pool w)),
                                       pool_in_use := List.insert c (pool_in_use (pool w))\<rparr>\<rparr>)))"

definition pool_free :: "chrome \<Rightarrow> world \<Rightarrow> world" where
  "pool_free c w =
     emit (PoolFree c)
       (w\<lparr>pool := (pool w)\<lparr>pool_free_set := List.insert c (pool_free_set (pool w)),
                           pool_in_use := removeAll c (pool_in_use (pool w))\<rparr>\<rparr>)"

definition pool_remove :: "chrome \<Rightarrow> world \<Rightarrow> world" where
  "pool_remove c w =
     emit (PoolRemove c)
       (w\<lparr>pool := (pool w)\<lparr>pool_free_set := removeAll c (pool_free_set (pool w)),
                           pool_in_use := removeAll c (pool_in_use (pool w))\<rparr>\<rparr>)"

definition pool_terminate :: "world \<Rightarrow> world" where
  "pool_terminate w =
     emit PoolTerminate (w\<lparr>pool := (pool w)\<lparr>pool_free_set := [], pool_in_use := []\<rparr>\<rparr>)"

text \<open>The calls on a chrome instance and on a strategy: ask the environment, record the call.\<close>

definition load_url :: "env \<Rightarrow> chrome \<Rightarrow> url \<Rightarrow> world \<Rightarrow> (exn + unit) \<times> world" where
  "load_url en c u w = (let r = load_url_result en (trace w) c u in (r, emit (LoadUrl c u r) w))"

definition wait_for_load :: "env \<Rightarrow> chrome \<Rightarrow> world \<Rightarrow> (exn + bool) \<times> world" where
  "wait_for_load en c w = (let r = wait_for_load_result en (trace w) c in (r, emit (WaitForLoad c r) w))"

definition stop :: "env \<Rightarrow> chrome \<Rightarrow> world \<Rightarrow> (exn + unit) \<times> world" where
  "stop en c w = (let r = stop_result en (trace w) c in (r, emit (Stop c r) w))"

definition load_about_blank :: "env \<Rightarrow> chrome \<Rightarrow> world \<Rightarrow> (exn + unit) \<times> world" where
  "load_about_blank en c w =
     (let r = load_about_blank_result en (trace w) c in (r, emit (LoadAboutBlank c r) w))"

definition strategy_crawl ::
  "env \<Rightarrow> strategy \<Rightarrow> chrome \<Rightarrow> url \<Rightarrow> string \<Rightarrow> world \<Rightarrow> (exn + unit) \<times> world" where
  "strategy_crawl en st c u did w =
     (let r = strategy_crawl_result en (trace w) st c u did in (r, emit (StrategyCrawl st c u did r) w))"

definition get_console_messages :: "env \<Rightarrow> chrome \<Rightarrow> world \<Rightarrow> (exn + string list) \<times> world" where
  "get_console_messages en c w =
     (let r = console_messages_result en (trace w) c in (r, emit (GetConsoleMessages c r) w))"

definition chrome_get_js_errors :: "env \<Rightarrow> chrome \<Rightarrow> world \<Rightarrow> (exn + string list) \<times> world" where
  "chrome_get_js_errors en c w =
     (let r = js_errors_result en (trace w) c in (r, emit (GetJsErrors c r) w))"

section \<open>The class ChromeCrawler\<close>

text \<open>
  Every method takes the environment, its Python arguments and the world, and returns
  its result (\<open>Inl\<close> an exception that leaves the method) with the new world. A method
  whose name starts with an underscore in the source has the prefix \<open>priv\<close> here.
\<close>

text \<open>
  \<^verbatim>\<open>__init__(self, uri_opener, max_instances=None, web_spider=None)\<close>: the strategy
  list is built once, the JS strategy first, the DOM dump strategy appended when a web
  spider was given.
\<close>

definition init :: "env \<Rightarrow> uri_opener \<Rightarrow> nat option \<Rightarrow> web_spider option \<Rightarrow> chrome_crawler \<times> world" where
  "init en uo max_instances ws =
     (\<lparr>uri_opener = Some uo,
       web_spider = ws,
       crawl_strategies =
         [ChromeCrawlerJS] @ (case ws of None \<Rightarrow> [] | Some sp \<Rightarrow> [ChromeCrawlerDOMDump sp])\<rparr>,
      \<lparr>pool = new_chrome_pool en uo max_instances, trace = []\<rparr>)"

text \<open>\<^verbatim>\<open>_get_chrome_from_pool(self, url, http_traffic_queue, debugging_id)\<close>\<close>

definition priv_get_chrome_from_pool ::
  "env \<Rightarrow> url \<Rightarrow> queue \<Rightarrow> string \<Rightarrow> world \<Rightarrow> (exn + chrome) \<times> world" where
  "priv_get_chrome_from_pool en u http_traffic_queue did w =
     (let w1 = emit (Debug (GettingChrome u did)) w;
          cq = \<lparr>cq_queue = http_traffic_queue, cq_debugging_id = did\<rparr>
      in case pool_get en cq w1 of
           (Inl cpe, w2) \<Rightarrow>
             if is_chrome_pool_exception cpe
             then (Inl (ChromeCrawlerException
                          (''Failed to get a chrome instance: '' @ [CHR 0x22] @ str_exn cpe @ [CHR 0x22])),
                   emit (Debug (FailedGetChrome cpe did)) w2)
             else (Inl cpe, w2)
         | (Inr c, w2) \<Rightarrow> (Inr c, emit (TookLineSend TookGetChrome) w2))"

text \<open>\<^verbatim>\<open>_initial_page_load(self, url, http_traffic_queue, debugging_id=None)\<close>\<close>

definition priv_initial_page_load ::
  "env \<Rightarrow> url \<Rightarrow> queue \<Rightarrow> string \<Rightarrow> world \<Rightarrow> (exn + chrome) \<times> world" where
  "priv_initial_page_load en u http_traffic_queue did w =
     (case priv_get_chrome_from_pool en u http_traffic_queue did w of
        (Inl e, w1) \<Rightarrow> (Inl e, w1)
      | (Inr c, w1) \<Rightarrow>
          (let w2 = emit (SetDebuggingId c did) (emit (Debug (UsingChrome c u did)) w1)
           in case load_url en c u w2 of
                (Inl cie, w3) \<Rightarrow>
                  if is_chrome_interface cie
                  then (Inl (ChromeCrawlerException
                               (''Failed to load '' @ u @ '' using '' @ chrome_str en c @ '': ''
                                @ [CHR 0x22] @ str_exn cie @ [CHR 0x22])),
                        pool_remove c (emit (Debug (FailedLoad u c cie did)) w3))
                  else (Inl cie, w3)
              | (Inr _, w3) \<Rightarrow>
                  (case wait_for_load en c w3 of
                     (Inl cie, w4) \<Rightarrow>
                       if is_chrome_interface cie
                       then (Inl (ChromeCrawlerException
                                    (''Exception raised while waiting for page load of '' @ u
                                     @ '' using '' @ chrome_str en c @ '': ''
                                     @ [CHR 0x22] @ str_exn cie @ [CHR 0x22])),
                             pool_remove c (emit (Debug (WaitException u c cie did)) w4))
                       else (Inl cie, w4)
                   | (Inr successfully_loaded, w4) \<Rightarrow>
                       (let w5 = (if \<not> successfully_loaded
                                  then emit (Debug (NotLoaded u did)) w4 else w4);
                            w6 = emit (TookLineSend (TookLoadUrl u)) w5
                        in case stop en c w6 of
                             (Inl cie, w7) \<Rightarrow>
                               if is_chrome_interface cie
                               then (Inl (ChromeCrawlerException ''Failed to stop chrome browser''),
                                     pool_remove c (emit (Debug (FailedStop c cie did)) w7))
                               else (Inl cie, w7)
                           | (Inr _, w7) \<Rightarrow> (Inr c, emit (TookLineSend TookStop) w7)))))"

text \<open>\<^verbatim>\<open>_cleanup(self, url, chrome, debugging_id=None)\<close>\<close>

definition priv_cleanup ::
  "env \<Rightarrow> url \<Rightarrow> chrome \<Rightarrow> string \<Rightarrow> world \<Rightarrow> (exn + py_value) \<times> world" where
  "priv_cleanup en u c did w =
     (case load_about_blank en c w of
        (Inl cie, w1) \<Rightarrow>
          if is_chrome_interface cie
          then (Inl (ChromeCrawlerException ''Failed to load about:blank in chrome browser''),
                pool_remove c (emit (Debug (FailedAboutBlank c cie did)) w1))
          else (Inl cie, w1)
      | (Inr _, w1) \<Rightarrow>
          (let w2 = pool_free c w1;
               w3 = emit (Debug (Extracted (queue_count en (trace w2) c) u c did)) w2
           in (Inr (PyBool True), emit (TookLineSend TookCleanup) w3)))"

text \<open>
  The body of the \<^verbatim>\<open>for\<close> loop of \<^verbatim>\<open>_crawl\<close>, for one strategy: \<open>Inl\<close> when an
  exception leaves the loop, \<open>Inr\<close> when the loop goes on to the next strategy. Each of
  the three \<^verbatim>\<open>except Exception, e\<close> handlers runs for an instance of \<^verbatim>\<open>Exception\<close>
  only; any other exception leaves the loop at once, with no log line and no call on the
  pool.
\<close>

definition crawl_with_strategy ::
  "env \<Rightarrow> strategy \<Rightarrow> url \<Rightarrow> queue \<Rightarrow> string \<Rightarrow> world \<Rightarrow> (exn + unit) \<times> world" where
  "crawl_with_strategy en crawl_strategy u http_traffic_queue did w =
     (case priv_initial_page_load en u http_traffic_queue did w of
        (Inl e, w1) \<Rightarrow>
          if is_exception e
          then (Inl e, emit (Debug (FailedInitialPageLoad u e did)) w1)
          else (Inl e, w1)
      | (Inr c, w1) \<Rightarrow>
          (case strategy_crawl en crawl_strategy c u did w1 of
             (Inl e, w2) \<Rightarrow>
               if is_exception e
               then (Inl e,
                     pool_remove c
                       (emit (TookLineSend (TookStrategy crawl_strategy u did))
                          (emit (Debug (FailedCrawl u c e did)) w2)))
               else (Inl e, w2)
           | (Inr _, w2) \<Rightarrow>
               (case priv_cleanup en u c did w2 of
                  (Inl e, w3) \<Rightarrow>
                    if is_exception e
                    then (Inl e,
                          emit (TookLineSend (TookStrategy crawl_strategy u did))
                            (emit (Debug (FailedCrawl u c e did)) w3))
                    else (Inl e, w3)
                | (Inr _, w3) \<Rightarrow>
                    (Inr (), emit (TookLineSend (TookStrategy crawl_strategy u did)) w3))))"

text \<open>The \<^verbatim>\<open>for crawl_strategy in self._crawl_strategies\<close> loop.\<close>

fun crawl_loop ::
  "env \<Rightarrow> strategy list \<Rightarrow> url \<Rightarrow> queue \<Rightarrow> string \<Rightarrow> world \<Rightarrow> (exn + py_value) \<times> world" where
  "crawl_loop en [] u http_traffic_queue did w = (Inr PyNone, w)"
| "crawl_loop en (crawl_strategy # rest) u http_traffic_queue did w =
     (case crawl_with_strategy en crawl_strategy u http_traffic_queue did w of
        (Inl e, w1) \<Rightarrow> (Inl e, w1)
      | (Inr _, w1) \<Rightarrow> crawl_loop en rest u http_traffic_queue did w1)"

text \<open>\<^verbatim>\<open>_crawl(self, url, http_traffic_queue, debugging_id=None)\<close>\<close>

definition priv_crawl ::
  "env \<Rightarrow> chrome_crawler \<Rightarrow> url \<Rightarrow> queue \<Rightarrow> string \<Rightarrow> world \<Rightarrow> (exn + py_value) \<times> world" where
  "priv_crawl en self u http_traffic_queue did w =
     crawl_loop en (crawl_strategies self) u http_traffic_queue did w"

text \<open>
  \<^verbatim>\<open>crawl(self, url, http_traffic_queue)\<close>: the method has no \<^verbatim>\<open>return\<close> statement, so
  what \<^verbatim>\<open>_crawl\<close> returns is dropped and the caller gets \<^verbatim>\<open>None\<close>.
\<close>

definition crawl ::
  "env \<Rightarrow> chrome_crawler \<Rightarrow> url \<Rightarrow> queue \<Rightarrow> world \<Rightarrow> (exn + py_value) \<times> world" where
  "crawl en self u http_traffic_queue w =
     (let debugging_id = rand_alnum en (trace w) 8;
          w1 = emit (RandAlnum 8 debugging_id) w
      in case priv_crawl en self u http_traffic_queue debugging_id w1 of
           (Inl e, w2) \<Rightarrow> (Inl e, w2)
         | (Inr _, w2) \<Rightarrow> (Inr PyNone, w2))"

text \<open>
  \<^verbatim>\<open>terminate(self)\<close>: the pool is terminated and two attributes are set to \<^verbatim>\<open>None\<close>.
  The method changes the crawler object, which is returned with the world.
\<close>

definition terminate :: "chrome_crawler \<Rightarrow> world \<Rightarrow> (exn + py_value) \<times> chrome_crawler \<times> world" where
  "terminate self w =
     (let w1 = pool_terminate w
      in (Inr PyNone, self\<lparr>uri_opener := None, web_spider := None\<rparr>, w1))"

text \<open>
  The decimal digits of a natural number, for \<^verbatim>\<open>"%s" % len(self._pool._free)\<close>. The
  recursion is on a bound of the number of digits.
\<close>

fun digits_of :: "nat \<Rightarrow> nat \<Rightarrow> string" where
  "digits_of 0 n = []"
| "digits_of (Suc k) n =
     (if n < 10 then [char_of (48 + n)] else digits_of k (n div 10) @ [char_of (48 + n mod 10)])"

definition str_nat :: "nat \<Rightarrow> string" where
  "str_nat n = digits_of (Suc n) n"

definition pool_size_msg :: "world \<Rightarrow> string" where
  "pool_size_msg w =
     ''Chrome pool has '' @ str_nat (length (pool_free_set (pool w))) @ '' instances, one is required''"

text \<open>
  \<^verbatim>\<open>print_all_console_messages(self)\<close>: the assertion, then every console message of
  the one free chrome instance is printed; nothing is returned.
\<close>

definition print_all_console_messages :: "env \<Rightarrow> world \<Rightarrow> (exn + py_value) \<times> world" where
  "print_all_console_messages en w =
     (case pool_free_set (pool w) of
        [instrumented_chrome] \<Rightarrow>
          (case get_console_messages en instrumented_chrome w of
             (Inl e, w1) \<Rightarrow> (Inl e, w1)
           | (Inr msgs, w1) \<Rightarrow> (Inr PyNone, fold (\<lambda>m. emit (Print m)) msgs w1))
      | _ \<Rightarrow> (Inl (AssertionError (pool_size_msg w)), w))"

text \<open>\<^verbatim>\<open>get_js_errors(self)\<close>: the assertion, then the JS errors of the one free chrome instance.\<close>

definition get_js_errors :: "env \<Rightarrow> world \<Rightarrow> (exn + py_value) \<times> world" where
  "get_js_errors en w =
     (case pool_free_set (pool w) of
        [instrumented_chrome] \<Rightarrow>
          (case chrome_get_js_errors en instrumented_chrome w of
             (Inl e, w1) \<Rightarrow> (Inl e, w1)
           | (Inr errs, w1) \<Rightarrow> (Inr (PyList errs), w1))
      | _ \<Rightarrow> (Inl (AssertionError (pool_size_msg w)), w))"

section \<open>Reading a trace\<close>

text \<open>
  The events a call adds to the trace are the ones after the events that were there
  before the call.
\<close>

definition new_events :: "world \<Rightarrow> world \<Rightarrow> event list" where
  "new_events w w' = drop (length (trace w)) (trace w')"

text \<open>
  The workers handed out by \<^verbatim>\<open>pool.get\<close>, the workers given back with \<^verbatim>\<open>pool.free\<close>
  and the workers evicted with \<^verbatim>\<open>pool.remove\<close>, each in the order of the calls.
\<close>

fun acquired_by :: "event \<Rightarrow> chrome list" where
  "acquired_by (PoolGet cq (Inr c)) = [c]"
| "acquired_by ev = []"

fun freed_by :: "event \<Rightarrow> chrome list" where
  "freed_by (PoolFree c) = [c]"
| "freed_by ev = []"

fun removed_by :: "event \<Rightarrow> chrome list" where
  "removed_by (PoolRemove c) = [c]"
| "removed_by ev = []"

definition acquired :: "event list \<Rightarrow> chrome list" where
  "acquired evs = concat (map acquired_by evs)"

definition freed :: "event list \<Rightarrow> chrome list" where
  "freed evs = concat (map freed_by evs)"

definition removed :: "event list \<Rightarrow> chrome list" where
  "removed evs = concat (map removed_by evs)"

text \<open>The calls that raised an exception.\<close>

fun is_failed :: "event \<Rightarrow> bool" where
  "is_failed (PoolGet cq (Inl e)) = True"
| "is_failed (LoadUrl c u (Inl e)) = True"
| "is_failed (WaitForLoad c (Inl e)) = True"
| "is_failed (Stop c (Inl e)) = True"
| "is_failed (StrategyCrawl st c u did (Inl e)) = True"
| "is_failed (LoadAboutBlank c (Inl e)) = True"
| "is_failed ev = False"

definition failed_calls :: "event list \<Rightarrow> event list" where
  "failed_calls evs = filter is_failed evs"

text \<open>
  The calls on the pool, on a chrome instance and on a strategy, without the log lines
  and the timing lines.
\<close>

fun is_log :: "event \<Rightarrow> bool" where
  "is_log (Debug m) = True"
| "is_log (TookLineSend t) = True"
| "is_log ev = False"

definition calls :: "event list \<Rightarrow> event list" where
  "calls evs = filter (\<lambda>ev. \<not> is_log ev) evs"

text \<open>The debugging ids an event carries.\<close>

fun log_ids :: "log_msg \<Rightarrow> string list" where
  "log_ids (GettingChrome u did) = [did]"
| "log_ids (FailedGetChrome e did) = [did]"
| "log_ids (UsingChrome c u did) = [did]"
| "log_ids (FailedLoad u c e did) = [did]"
| "log_ids (WaitException u c e did) = [did]"
| "log_ids (NotLoaded u did) = [did]"
| "log_ids (FailedStop c e did) = [did]"
| "log_ids (FailedInitialPageLoad u e did) = [did]"
| "log_ids (FailedCrawl u c e did) = [did]"
| "log_ids (FailedAboutBlank c e did) = [did]"
| "log_ids (Extracted n u c did) = [did]"

fun event_ids :: "event \<Rightarrow> string list" where
  "event_ids (RandAlnum n did) = [did]"
| "event_ids (Debug m) = log_ids m"
| "event_ids (TookLineSend (TookStrategy st u did)) = [did]"
| "event_ids (PoolGet cq r) = [cq_debugging_id cq]"
| "event_ids (SetDebuggingId c did) = [did]"
| "event_ids (StrategyCrawl st c u did r) = [did]"
| "event_ids ev = []"

fun is_rand_alnum :: "event \<Rightarrow> bool" where
  "is_rand_alnum (RandAlnum n did) = True"
| "is_rand_alnum ev = False"

text \<open>
  The calls one strategy takes when nothing fails: a worker is taken from the pool, the
  page is loaded, awaited and stopped, the strategy is run, the blank page is loaded and
  the worker is given back. \<open>b\<close> is what \<^verbatim>\<open>wait_for_load\<close> returned.
\<close>

definition strategy_block :: "queue \<Rightarrow> url \<Rightarrow> string \<Rightarrow> strategy \<Rightarrow> chrome \<Rightarrow> bool \<Rightarrow> event list" where
  "strategy_block q u did st c b =
     [PoolGet \<lparr>cq_queue = q, cq_debugging_id = did\<rparr> (Inr c), SetDebuggingId c did,
      LoadUrl c u (Inr ()), WaitForLoad c (Inr b), Stop c (Inr ()),
      StrategyCrawl st c u did (Inr ()), LoadAboutBlank c (Inr ()), PoolFree c]"

text \<open>
  About a failed call: the worker it was made on (none for \<^verbatim>\<open>pool.get\<close>), the exception
  it raised, whether it is the call of a strategy or of the pool.
\<close>

fun failed_worker :: "event \<Rightarrow> chrome list" where
  "failed_worker (LoadUrl c u r) = [c]"
| "failed_worker (WaitForLoad c r) = [c]"
| "failed_worker (Stop c r) = [c]"
| "failed_worker (StrategyCrawl st c u did r) = [c]"
| "failed_worker (LoadAboutBlank c r) = [c]"
| "failed_worker ev = []"

fun raised_by :: "event \<Rightarrow> exn option" where
  "raised_by (PoolGet cq (Inl e)) = Some e"
| "raised_by (LoadUrl c u (Inl e)) = Some e"
| "raised_by (WaitForLoad c (Inl e)) = Some e"
| "raised_by (Stop c (Inl e)) = Some e"
| "raised_by (StrategyCrawl st c u did (Inl e)) = Some e"
| "raised_by (LoadAboutBlank c (Inl e)) = Some e"
| "raised_by ev = None"

fun is_strategy_crawl :: "event \<Rightarrow> bool" where
  "is_strategy_crawl (StrategyCrawl st c u did r) = True"
| "is_strategy_crawl ev = False"

fun is_pool_get :: "event \<Rightarrow> bool" where
  "is_pool_get (PoolGet cq r) = True"
| "is_pool_get ev = False"

text \<open>
  The failed calls after which the source removes the worker from the pool: a failed
  strategy that raised an instance of \<^verbatim>\<open>Exception\<close>, whatever its class, and a failed
  call on the chrome instance that raised one of the two interface exceptions.
\<close>

definition evicting :: "event \<Rightarrow> bool" where
  "evicting f =
     (case raised_by f of
        None \<Rightarrow> False
      | Some e \<Rightarrow>
          \<not> is_pool_get f \<and> (is_strategy_crawl f \<and> is_exception e \<or> is_chrome_interface e))"

text \<open>
  The failed calls whose exception the source replaces by a \<^verbatim>\<open>ChromeCrawlerException\<close>:
  \<^verbatim>\<open>pool.get\<close> raising \<^verbatim>\<open>ChromePoolException\<close>, and a call on the chrome instance
  raising one of the two interface exceptions.
\<close>

definition wraps :: "event \<Rightarrow> bool" where
  "wraps f =
     (case raised_by f of
        None \<Rightarrow> False
      | Some e \<Rightarrow> if is_pool_get f then is_chrome_pool_exception e
                  else \<not> is_strategy_crawl f \<and> is_chrome_interface e)"

fun is_crawler_exception :: "exn \<Rightarrow> bool" where
  "is_crawler_exception (ChromeCrawlerException m) = True"
| "is_crawler_exception e = False"

text \<open>The calls from the first failed call on.\<close>

definition after_failure :: "event list \<Rightarrow> event list" where
  "after_failure evs = calls (dropWhile (\<lambda>ev. \<not> is_failed ev) evs)"

text \<open>What a call of \<^verbatim>\<open>crawl\<close> returns, the events it adds and the pool it leaves.\<close>

definition crawl_result :: "env \<Rightarrow> chrome_crawler \<Rightarrow> url \<Rightarrow> queue \<Rightarrow> world \<Rightarrow> exn + py_value" where
  "crawl_result en self u q w = fst (crawl en self u q w)"

definition crawl_events :: "env \<Rightarrow> chrome_crawler \<Rightarrow> url \<Rightarrow> queue \<Rightarrow> world \<Rightarrow> event list" where
  "crawl_events en self u q w = new_events w (snd (crawl en self u q w))"

definition crawl_pool :: "env \<Rightarrow> chrome_crawler \<Rightarrow> url \<Rightarrow> queue \<Rightarrow> world \<Rightarrow> chrome_pool" where
  "crawl_pool en self u q w = pool (snd (crawl en self u q w))"

section \<open>Concrete runs\<close>

text \<open>
  An environment in which every call succeeds: the pool hands out a new worker at every
  \<^verbatim>\<open>get\<close> (worker 0, then worker 1, and so on), every page loads in time, and the worker
  has two console messages and no JS error. The other environments differ from it in one
  answer.
\<close>

definition fresh_pool :: "uri_opener \<Rightarrow> nat option \<Rightarrow> chrome_pool" where
  "fresh_pool uo max_instances =
     \<lparr>pool_uri_opener = uo, pool_max_instances = max_instances, pool_free_set = [], pool_in_use = []\<rparr>"

definition env_ok :: env where
  "env_ok =
     \<lparr>new_chrome_pool = fresh_pool,
      random_choice = (\<lambda>h i. i),
      chrome_str = (\<lambda>c. ''chrome''),
      pool_get_result = (\<lambda>h cq. Inr (length (acquired h))),
      load_url_result = (\<lambda>h c u. Inr ()),
      wait_for_load_result = (\<lambda>h c. Inr True),
      stop_result = (\<lambda>h c. Inr ()),
      strategy_crawl_result = (\<lambda>h st c u did. Inr ()),
      load_about_blank_result = (\<lambda>h c. Inr ()),
      queue_count = (\<lambda>h c. 0),
      console_messages_result = (\<lambda>h c. Inr [''hello'', ''world'']),
      js_errors_result = (\<lambda>h c. Inr [])\<rparr>"

text \<open>\<^verbatim>\<open>wait_for_load\<close> returns \<^verbatim>\<open>False\<close>: the page did not load in time.\<close>

definition env_wait_timeout :: env where
  "env_wait_timeout = env_ok\<lparr>wait_for_load_result := (\<lambda>h c. Inr False)\<rparr>"

text \<open>\<^verbatim>\<open>load_url\<close> raises an exception that is not one of the two interface exceptions.\<close>

definition env_load_error :: env where
  "env_load_error = env_ok\<lparr>load_url_result := (\<lambda>h c u. Inl (OtherException ''boom''))\<rparr>"

text \<open>\<^verbatim>\<open>load_url\<close> raises \<^verbatim>\<open>ChromeInterfaceTimeout\<close>.\<close>

definition env_load_timeout :: env where
  "env_load_timeout = env_ok\<lparr>load_url_result := (\<lambda>h c u. Inl (ChromeInterfaceTimeout ''timeout''))\<rparr>"

text \<open>The DOM dump strategy raises an exception, the JS strategy succeeds.\<close>

definition env_dom_dump_fails :: env where
  "env_dom_dump_fails =
     env_ok\<lparr>strategy_crawl_result :=
       (\<lambda>h st c u did. case st of ChromeCrawlerJS \<Rightarrow> Inr ()
                         | ChromeCrawlerDOMDump sp \<Rightarrow> Inl (OtherException ''boom''))\<rparr>"

text \<open>The strategy is interrupted: its call raises \<^verbatim>\<open>KeyboardInterrupt\<close>.\<close>

definition env_strategy_interrupted :: env where
  "env_strategy_interrupted =
     env_ok\<lparr>strategy_crawl_result := (\<lambda>h st c u did. Inl (KeyboardInterrupt []))\<rparr>"

text \<open>A crawler without a web spider, a crawler with one, and the world after construction.\<close>

definition crawler_js :: chrome_crawler where
  "crawler_js = fst (init env_ok 1 None None)"

definition crawler_js_dom :: chrome_crawler where
  "crawler_js_dom = fst (init env_ok 1 None (Some 2))"

definition world0 :: world where
  "world0 = snd (init env_ok 1 None None)"

definition example_url :: url where
  "example_url = ''http://example.test/''"

text \<open>The world after one successful job of the crawler without a web spider.\<close>

definition world1 :: world where
  "world1 = snd (crawl env_ok crawler_js example_url 0 world0)"

section \<open>Properties of one turn of the loop\<close>

lemmas crawler_defs = crawl_with_strategy_def priv_initial_page_load_def
  priv_get_chrome_from_pool_def priv_cleanup_def pool_get_def pool_free_def pool_remove_def
  emit_def load_url_def wait_for_load_def stop_def load_about_blank_def strategy_crawl_def Let_def

lemmas trace_defs = calls_def failed_calls_def acquired_def freed_def removed_def after_failure_def

lemma removeAll_insert_same: "removeAll c (List.insert c xs) = removeAll c xs"
  by (simp add: List.insert_def)

lemma chrome_interface_is_exception: "is_chrome_interface e \<Longrightarrow> is_exception e"
  by (cases e) simp_all

lemma crawler_exception_is_exception: "is_crawler_exception e \<Longrightarrow> is_exception e"
  by (cases e) simp_all

lemma step_success:
  "crawl_with_strategy en st u q did w = (Inr x, w') \<Longrightarrow>
   \<exists>evs c b. trace w' = trace w @ evs \<and> calls evs = strategy_block q u did st c b
      \<and> failed_calls evs = []
      \<and> acquired evs = [c] \<and> freed evs = [c] \<and> removed evs = []
      \<and> pool_free_set (pool w') = List.insert c (removeAll c (pool_free_set (pool w)))
      \<and> pool_in_use (pool w') = removeAll c (pool_in_use (pool w))"
  apply (simp add: crawler_defs split: prod.split_asm sum.split_asm if_split_asm)
   apply (auto simp: trace_defs strategy_block_def ex_bool_eq removeAll_insert_same)
  done

lemma step_failure:
  "crawl_with_strategy en st u q did w = (Inl e, w') \<Longrightarrow>
   \<exists>evs f. trace w' = trace w @ evs \<and> failed_calls evs = [f]
      \<and> freed evs = []
      \<and> acquired evs = failed_worker f
      \<and> (evicting f \<longrightarrow> removed evs = failed_worker f)
      \<and> (\<not> evicting f \<longrightarrow> removed evs = [])
      \<and> after_failure evs = f # map PoolRemove (removed evs)
      \<and> (wraps f \<longrightarrow> is_crawler_exception e)
      \<and> (\<not> wraps f \<longrightarrow> raised_by f = Some e)
      \<and> (\<forall>c\<in>set (failed_worker f). c \<notin> set (pool_free_set (pool w'))
            \<and> (c \<in> set (pool_in_use (pool w')) \<longleftrightarrow> \<not> evicting f))"
  apply (simp add: crawler_defs split: prod.split_asm sum.split_asm if_split_asm)
             apply (auto simp: trace_defs evicting_def wraps_def dest: chrome_interface_is_exception)
  done

lemma step_ids:
  "crawl_with_strategy en st u q did w = (r, w') \<Longrightarrow>
   \<exists>evs. trace w' = trace w @ evs
      \<and> (\<forall>ev\<in>set evs. \<not> is_rand_alnum ev \<and> set (event_ids ev) \<subseteq> {did})"
  apply (simp add: crawler_defs split: prod.split_asm sum.split_asm if_split_asm)
               apply auto
  done

section \<open>Properties of the loop over the strategies\<close>

lemma loop_step_success:
  "crawl_loop en (st # sts) u q did w = (Inr v, w') \<Longrightarrow>
   \<exists>w1. crawl_with_strategy en st u q did w = (Inr (), w1) \<and> crawl_loop en sts u q did w1 = (Inr v, w')"
  by (auto split: prod.splits sum.splits)

lemma loop_step_failure:
  "crawl_loop en (st # sts) u q did w = (Inl e, w') \<Longrightarrow>
   crawl_with_strategy en st u q did w = (Inl e, w')
   \<or> (\<exists>w1. crawl_with_strategy en st u q did w = (Inr (), w1) \<and> crawl_loop en sts u q did w1 = (Inl e, w'))"
  by (auto split: prod.splits sum.splits)

lemma loop_success:
  "crawl_loop en sts u q did w = (Inr v, w') \<Longrightarrow>
   \<exists>evs cbs. trace w' = trace w @ evs \<and> v = PyNone \<and> length cbs = length sts
      \<and> calls evs = concat (map (\<lambda>(st, c, b). strategy_block q u did st c b) (zip sts cbs))
      \<and> failed_calls evs = []
      \<and> acquired evs = map fst cbs \<and> freed evs = map fst cbs \<and> removed evs = []
      \<and> set (pool_free_set (pool w')) = set (pool_free_set (pool w)) \<union> fst ` set cbs
      \<and> set (pool_in_use (pool w')) = set (pool_in_use (pool w)) - fst ` set cbs"
proof (induction sts arbitrary: w)
  case Nil
  then show ?case by (auto simp: trace_defs)
next
  case (Cons st sts)
  from loop_step_success[OF Cons.prems] obtain w1 where
    s1: "crawl_with_strategy en st u q did w = (Inr (), w1)" and
    r1: "crawl_loop en sts u q did w1 = (Inr v, w')" by blast
  from step_success[OF s1] obtain evs1 c b where
    e1: "trace w1 = trace w @ evs1" "calls evs1 = strategy_block q u did st c b"
        "failed_calls evs1 = []" "acquired evs1 = [c]" "freed evs1 = [c]" "removed evs1 = []"
        "pool_free_set (pool w1) = List.insert c (removeAll c (pool_free_set (pool w)))"
        "pool_in_use (pool w1) = removeAll c (pool_in_use (pool w))" by blast
  from Cons.IH[OF r1] obtain evs2 cbs where
    e2: "trace w' = trace w1 @ evs2" "v = PyNone" "length cbs = length sts"
        "calls evs2 = concat (map (\<lambda>(st, c, b). strategy_block q u did st c b) (zip sts cbs))"
        "failed_calls evs2 = []"
        "acquired evs2 = map fst cbs" "freed evs2 = map fst cbs" "removed evs2 = []"
        "set (pool_free_set (pool w')) = set (pool_free_set (pool w1)) \<union> fst ` set cbs"
        "set (pool_in_use (pool w')) = set (pool_in_use (pool w1)) - fst ` set cbs" by blast
  have "trace w' = trace w @ (evs1 @ evs2)" using e1(1) e2(1) by simp
  moreover have "length ((c, b) # cbs) = length (st # sts)" using e2(3) by simp
  moreover have "calls (evs1 @ evs2) =
      concat (map (\<lambda>(st, c, b). strategy_block q u did st c b) (zip (st # sts) ((c, b) # cbs)))"
    using e1(2) e2(4) by (simp add: calls_def)
  moreover have "failed_calls (evs1 @ evs2) = []" using e1(3) e2(5) by (simp add: failed_calls_def)
  moreover have "acquired (evs1 @ evs2) = map fst ((c, b) # cbs)"
    using e1(4) e2(6) by (simp add: acquired_def)
  moreover have "freed (evs1 @ evs2) = map fst ((c, b) # cbs)"
    using e1(5) e2(7) by (simp add: freed_def)
  moreover have "removed (evs1 @ evs2) = []" using e1(6) e2(8) by (simp add: removed_def)
  moreover have "set (pool_free_set (pool w')) = set (pool_free_set (pool w)) \<union> fst ` set ((c, b) # cbs)"
    using e1(7) e2(9) by auto
  moreover have "set (pool_in_use (pool w')) = set (pool_in_use (pool w)) - fst ` set ((c, b) # cbs)"
    using e1(8) e2(10) by auto
  ultimately show ?case using e2(2) by blast
qed

lemma loop_failure:
  "crawl_loop en sts u q did w = (Inl e, w') \<Longrightarrow>
   \<exists>evs f. trace w' = trace w @ evs \<and> failed_calls evs = [f]
      \<and> acquired evs = freed evs @ failed_worker f
      \<and> (evicting f \<longrightarrow> removed evs = failed_worker f)
      \<and> (\<not> evicting f \<longrightarrow> removed evs = [])
      \<and> after_failure evs = f # map PoolRemove (removed evs)
      \<and> (wraps f \<longrightarrow> is_crawler_exception e)
      \<and> (\<not> wraps f \<longrightarrow> raised_by f = Some e)
      \<and> (\<forall>c\<in>set (failed_worker f). c \<notin> set (pool_free_set (pool w'))
            \<and> (c \<in> set (pool_in_use (pool w')) \<longleftrightarrow> \<not> evicting f))"
proof (induction sts arbitrary: w)
  case Nil
  then show ?case by simp
next
  case (Cons st sts)
  from loop_step_failure[OF Cons.prems] show ?case
  proof
    assume "crawl_with_strategy en st u q did w = (Inl e, w')"
    from step_failure[OF this] show ?thesis by auto
  next
    assume "\<exists>w1. crawl_with_strategy en st u q did w = (Inr (), w1) \<and> crawl_loop en sts u q did w1 = (Inl e, w')"
    then obtain w1 where
      s1: "crawl_with_strategy en st u q did w = (Inr (), w1)" and
      r1: "crawl_loop en sts u q did w1 = (Inl e, w')" by blast
    from step_success[OF s1] obtain evs1 c b where
      e1: "trace w1 = trace w @ evs1" 
        "failed_calls evs1 = []" "acquired evs1 = [c]" "freed evs1 = [c]" "removed evs1 = []" by blast
    from Cons.IH[OF r1] obtain evs2 f where
      e2: "trace w' = trace w1 @ evs2" "failed_calls evs2 = [f]"
        "acquired evs2 = freed evs2 @ failed_worker f"
        "evicting f \<longrightarrow> removed evs2 = failed_worker f"
        "\<not> evicting f \<longrightarrow> removed evs2 = []"
        "after_failure evs2 = f # map PoolRemove (removed evs2)"
        "wraps f \<longrightarrow> is_crawler_exception e"
        "\<not> wraps f \<longrightarrow> raised_by f = Some e"
        "\<forall>c\<in>set (failed_worker f). c \<notin> set (pool_free_set (pool w'))
            \<and> (c \<in> set (pool_in_use (pool w')) \<longleftrightarrow> \<not> evicting f)" by blast
    have nf: "\<forall>ev\<in>set evs1. \<not> is_failed ev" using e1(2) by (simp add: failed_calls_def filter_empty_conv)
    have "trace w' = trace w @ (evs1 @ evs2)" using e1(1) e2(1) by simp
    moreover have "failed_calls (evs1 @ evs2) = [f]" using e1(2) e2(2) by (simp add: failed_calls_def)
    moreover have "acquired (evs1 @ evs2) = freed (evs1 @ evs2) @ failed_worker f"
      using e1(3,4) e2(3) by (simp add: acquired_def freed_def)
    moreover have "removed (evs1 @ evs2) = removed evs2" using e1(5) by (simp add: removed_def)
    moreover have "after_failure (evs1 @ evs2) = after_failure evs2"
      using nf by (simp add: after_failure_def dropWhile_append2)
    ultimately show ?thesis using e2(4-9) by (intro exI[of _ "evs1 @ evs2"] exI[of _ f]) simp
  qed
qed

lemma loop_ids:
  "crawl_loop en sts u q did w = (r, w') \<Longrightarrow>
   \<exists>evs. trace w' = trace w @ evs
      \<and> (\<forall>ev\<in>set evs. \<not> is_rand_alnum ev \<and> set (event_ids ev) \<subseteq> {did})"
proof (induction sts arbitrary: w)
  case Nil
  then show ?case by simp
next
  case (Cons st sts)
  obtain r1 w1 where s1: "crawl_with_strategy en st u q did w = (r1, w1)" by force
  from step_ids[OF s1] obtain evs1 where
    e1: "trace w1 = trace w @ evs1" "\<forall>ev\<in>set evs1. \<not> is_rand_alnum ev \<and> set (event_ids ev) \<subseteq> {did}"
    by blast
  show ?case
  proof (cases r1)
    case (Inl e)
    with s1 Cons.prems have "w' = w1" by simp
    with e1 show ?thesis by blast
  next
    case (Inr x)
    with s1 Cons.prems have "crawl_loop en sts u q did w1 = (r, w')" by simp
    from Cons.IH[OF this] obtain evs2 where
      e2: "trace w' = trace w1 @ evs2" "\<forall>ev\<in>set evs2. \<not> is_rand_alnum ev \<and> set (event_ids ev) \<subseteq> {did}"
      by blast
    have "trace w' = trace w @ (evs1 @ evs2)" using e1(1) e2(1) by simp
    moreover have "\<forall>ev\<in>set (evs1 @ evs2). \<not> is_rand_alnum ev \<and> set (event_ids ev) \<subseteq> {did}"
      using e1(2) e2(2) by auto
    ultimately show ?thesis by blast
  qed
qed


section \<open>Properties of a call of crawl\<close>

lemma new_events_append: "trace w' = trace w @ evs \<Longrightarrow> new_events w w' = evs"
  by (simp add: new_events_def)

lemma crawl_cases:
  "(\<exists>v w'. crawl_loop en (crawl_strategies self) u q (rand_alnum en (trace w) 8)
              (emit (RandAlnum 8 (rand_alnum en (trace w) 8)) w) = (Inr v, w')
           \<and> crawl en self u q w = (Inr PyNone, w'))
   \<or> (\<exists>e w'. crawl_loop en (crawl_strategies self) u q (rand_alnum en (trace w) 8)
              (emit (RandAlnum 8 (rand_alnum en (trace w) 8)) w) = (Inl e, w')
           \<and> crawl en self u q w = (Inl e, w'))"
  by (auto simp: crawl_def priv_crawl_def Let_def split: prod.splits sum.splits)

lemma crawl_success:
  assumes "crawl_result en self u q w = Inr v"
  shows "\<exists>did evs cbs. crawl_events en self u q w = RandAlnum 8 did # evs \<and> v = PyNone
      \<and> length cbs = length (crawl_strategies self)
      \<and> calls evs = concat (map (\<lambda>(st, c, b). strategy_block q u did st c b) (zip (crawl_strategies self) cbs))
      \<and> failed_calls evs = []
      \<and> acquired evs = map fst cbs \<and> freed evs = map fst cbs \<and> removed evs = []
      \<and> set (pool_free_set (crawl_pool en self u q w)) = set (pool_free_set (pool w)) \<union> fst ` set cbs
      \<and> set (pool_in_use (crawl_pool en self u q w)) = set (pool_in_use (pool w)) - fst ` set cbs"
proof -
  let ?did = "rand_alnum en (trace w) 8"
  let ?w0 = "emit (RandAlnum 8 ?did) w"
  from crawl_cases[of en self u q w] assms obtain v0 w' where
    l: "crawl_loop en (crawl_strategies self) u q ?did ?w0 = (Inr v0, w')" and
    c: "crawl en self u q w = (Inr PyNone, w')"
    by (auto simp: crawl_result_def)
  from loop_success[OF l] obtain evs cbs where
    e: "trace w' = trace ?w0 @ evs" "length cbs = length (crawl_strategies self)"
       "calls evs = concat (map (\<lambda>(st, c, b). strategy_block q u ?did st c b) (zip (crawl_strategies self) cbs))"
       "failed_calls evs = []"
       "acquired evs = map fst cbs" "freed evs = map fst cbs" "removed evs = []"
       "set (pool_free_set (pool w')) = set (pool_free_set (pool ?w0)) \<union> fst ` set cbs"
       "set (pool_in_use (pool w')) = set (pool_in_use (pool ?w0)) - fst ` set cbs" by blast
  have "trace w' = trace w @ (RandAlnum 8 ?did # evs)" using e(1) by (simp add: emit_def)
  then have "crawl_events en self u q w = RandAlnum 8 ?did # evs"
    using c by (simp add: crawl_events_def new_events_append)
  moreover have "v = PyNone" using assms c by (simp add: crawl_result_def)
  moreover have "crawl_pool en self u q w = pool w'" using c by (simp add: crawl_pool_def)
  moreover have "pool ?w0 = pool w" by (simp add: emit_def)
  ultimately show ?thesis using e(2-9) by auto
qed

lemma crawl_failure:
  assumes "crawl_result en self u q w = Inl e"
  shows "\<exists>did evs f. crawl_events en self u q w = RandAlnum 8 did # evs \<and> failed_calls evs = [f]
      \<and> acquired evs = freed evs @ failed_worker f
      \<and> (evicting f \<longrightarrow> removed evs = failed_worker f)
      \<and> (\<not> evicting f \<longrightarrow> removed evs = [])
      \<and> after_failure evs = f # map PoolRemove (removed evs)
      \<and> (wraps f \<longrightarrow> is_crawler_exception e)
      \<and> (\<not> wraps f \<longrightarrow> raised_by f = Some e)
      \<and> (\<forall>c\<in>set (failed_worker f). c \<notin> set (pool_free_set (crawl_pool en self u q w))
            \<and> (c \<in> set (pool_in_use (crawl_pool en self u q w)) \<longleftrightarrow> \<not> evicting f))"
proof -
  let ?did = "rand_alnum en (trace w) 8"
  let ?w0 = "emit (RandAlnum 8 ?did) w"
  from crawl_cases[of en self u q w] assms obtain w' where
    l: "crawl_loop en (crawl_strategies self) u q ?did ?w0 = (Inl e, w')" and
    c: "crawl en self u q w = (Inl e, w')"
    by (auto simp: crawl_result_def)
  from loop_failure[OF l] obtain evs f where
    e: "trace w' = trace ?w0 @ evs" "failed_calls evs = [f]"
      "acquired evs = freed evs @ failed_worker f"
      "evicting f \<longrightarrow> removed evs = failed_worker f"
      "\<not> evicting f \<longrightarrow> removed evs = []"
      "after_failure evs = f # map PoolRemove (removed evs)"
      "wraps f \<longrightarrow> is_crawler_exception e"
      "\<not> wraps f \<longrightarrow> raised_by f = Some e"
      "\<forall>c\<in>set (failed_worker f). c \<notin> set (pool_free_set (pool w'))
            \<and> (c \<in> set (pool_in_use (pool w')) \<longleftrightarrow> \<not> evicting f)" by blast
  have "trace w' = trace w @ (RandAlnum 8 ?did # evs)" using e(1) by (simp add: emit_def)
  then have "crawl_events en self u q w = RandAlnum 8 ?did # evs"
    using c by (simp add: crawl_events_def new_events_append)
  moreover have "crawl_pool en self u q w = pool w'" using c by (simp add: crawl_pool_def)
  ultimately show ?thesis using e(2-9) by auto
qed

lemma rand_event_facts [simp]:
  "failed_calls (RandAlnum n d # evs) = failed_calls evs"
  "acquired (RandAlnum n d # evs) = acquired evs"
  "freed (RandAlnum n d # evs) = freed evs"
  "removed (RandAlnum n d # evs) = removed evs"
  "after_failure (RandAlnum n d # evs) = after_failure evs"
  "calls (RandAlnum n d # evs) = RandAlnum n d # calls evs"
  by (simp_all add: trace_defs)

lemma evicting_worker: "evicting f \<Longrightarrow> \<exists>c. failed_worker f = [c]"
  by (cases f rule: raised_by.cases) (auto simp: evicting_def)


lemma failed_event_fails:
  assumes "f \<in> set (failed_calls (crawl_events en self u q w))"
  shows "\<exists>e. crawl_result en self u q w = Inl e"
proof (cases "crawl_result en self u q w")
  case (Inl e)
  then show ?thesis by blast
next
  case (Inr v)
  from crawl_success[OF Inr] obtain did evs where
    "crawl_events en self u q w = RandAlnum 8 did # evs" "failed_calls evs = []" by blast
  with assms show ?thesis by simp
qed

lemma alnum_chars_length: "length alnum_chars = 62"
  by (simp add: alnum_chars_def)

lemma rand_alnum_length: "length (rand_alnum en h n) = n"
  by (simp add: rand_alnum_def)

lemma rand_alnum_chars: "set (rand_alnum en h n) \<subseteq> set alnum_chars"
proof -
  have "alnum_chars ! (k mod 62) \<in> set alnum_chars" for k
    by (rule nth_mem) (simp add: alnum_chars_length)
  then show ?thesis by (auto simp: rand_alnum_def)
qed

lemma crawl_ids:
  "\<exists>evs. crawl_events en self u q w = RandAlnum 8 (rand_alnum en (trace w) 8) # evs
      \<and> (\<forall>ev\<in>set evs. \<not> is_rand_alnum ev \<and> set (event_ids ev) \<subseteq> {rand_alnum en (trace w) 8})"
proof -
  let ?did = "rand_alnum en (trace w) 8"
  let ?w0 = "emit (RandAlnum 8 ?did) w"
  from crawl_cases[of en self u q w] obtain r0 r w' where
    l: "crawl_loop en (crawl_strategies self) u q ?did ?w0 = (r0, w')" and
    c: "crawl en self u q w = (r, w')" by blast
  from loop_ids[OF l] obtain evs where
    e: "trace w' = trace ?w0 @ evs"
       "\<forall>ev\<in>set evs. \<not> is_rand_alnum ev \<and> set (event_ids ev) \<subseteq> {?did}" by blast
  have "trace w' = trace w @ (RandAlnum 8 ?did # evs)" using e(1) by (simp add: emit_def)
  then have "crawl_events en self u q w = RandAlnum 8 ?did # evs"
    using c by (simp add: crawl_events_def new_events_append)
  with e(2) show ?thesis by blast
qed

lemma initial_page_load_after_timeout:
  "priv_initial_page_load en u q did w = (r, w') \<Longrightarrow>
   WaitForLoad c (Inr False) \<in> set (new_events w w') \<Longrightarrow>
   \<exists>s rest. dropWhile (\<lambda>ev. ev \<noteq> WaitForLoad c (Inr False)) (new_events w w')
         = [WaitForLoad c (Inr False), Debug (NotLoaded u did), TookLineSend (TookLoadUrl u), Stop c s] @ rest
      \<and> (s = Inr () \<longrightarrow> r = Inr c \<and> rest = [TookLineSend TookStop] \<and> removed (new_events w w') = [])"
  apply (simp add: crawler_defs new_events_def split: prod.split_asm sum.split_asm if_split_asm)
               apply (auto simp: removed_def)
  done

lemma no_failed_call_success:
  assumes "failed_calls (crawl_events en self u q w) = []"
  shows "crawl_result en self u q w = Inr PyNone"
proof (cases "crawl_result en self u q w")
  case (Inl e)
  from crawl_failure[OF Inl] obtain did evs f where
    "crawl_events en self u q w = RandAlnum 8 did # evs" "failed_calls evs = [f]" by blast
  with assms show ?thesis by simp
next
  case (Inr v)
  from crawl_success[OF Inr] have "v = PyNone" by blast
  with Inr show ?thesis by simp
qed

lemma print_all_trace:
  "trace (fold (\<lambda>m. emit (Print m)) msgs w) = trace w @ map Print msgs"
  by (induction msgs arbitrary: w) (simp_all add: emit_def)

lemma print_all_pool:
  "pool (fold (\<lambda>m. emit (Print m)) msgs w) = pool w"
  by (induction msgs arbitrary: w) (simp_all add: emit_def)

lemma assertion_fails:
  "length (pool_free_set (pool w)) \<noteq> 1 \<Longrightarrow>
   print_all_console_messages en w = (Inl (AssertionError (pool_size_msg w)), w)
   \<and> get_js_errors en w = (Inl (AssertionError (pool_size_msg w)), w)"
  by (auto simp: print_all_console_messages_def get_js_errors_def split: list.splits)

section \<open>Evaluating concrete runs\<close>

lemma first_eight_alnum: "map (\<lambda>i. alnum_chars ! (i mod 62)) [0..<8] = ''abcdefgh''"
  by code_simp

lemmas run_defs = first_eight_alnum crawl_result_def crawl_events_def crawl_pool_def new_events_def crawl_def priv_crawl_def
  crawler_defs trace_defs rand_alnum_def init_def fresh_pool_def
  env_ok_def env_wait_timeout_def env_load_error_def env_load_timeout_def env_dom_dump_fails_def
  env_strategy_interrupted_def
  crawler_js_def crawler_js_dom_def world0_def example_url_def

lemma char_of_48: "char_of (48::nat) = CHR ''0''"
  by code_simp

lemma world1_pool: "pool_free_set (pool world1) = [0]"
  by (simp add: world1_def run_defs)

lemma world1_trace_irrelevant:
  "console_messages_result env_ok h c = Inr [''hello'', ''world'']" "js_errors_result env_ok h c = Inr []"
  by (simp_all add: env_ok_def)

section \<open>The claims\<close>

text \<open>
  C1 (as amended). A call of \<^verbatim>\<open>crawl\<close> that returns normally has drawn one random
  debugging id and then, for every configured strategy in the declared order, has taken
  a worker from the pool, loaded the page on it, waited, stopped it, run that strategy
  on that worker, loaded the blank page and given the worker back: acquisition, initial
  load and cleanup run once for each strategy, not once for the job.
\<close>

theorem crawl_one_block_per_strategy:
  "crawl_result en self u q w = Inr v \<Longrightarrow>
   \<exists>did cbs. length cbs = length (crawl_strategies self) \<and>
     calls (crawl_events en self u q w) =
       RandAlnum 8 did #
       concat (map (\<lambda>(st, c, b). strategy_block q u did st c b) (zip (crawl_strategies self) cbs))"
proof -
  assume "crawl_result en self u q w = Inr v"
  from crawl_success[OF this] obtain did evs cbs where
    "crawl_events en self u q w = RandAlnum 8 did # evs"
    "length cbs = length (crawl_strategies self)"
    "calls evs = concat (map (\<lambda>(st, c, b). strategy_block q u did st c b) (zip (crawl_strategies self) cbs))"
    by blast
  then show ?thesis by (intro exI[of _ did] exI[of _ cbs]) simp
qed

theorem crawl_one_block_per_strategy_witness:
  "crawl_result env_ok crawler_js example_url 0 world0 = Inr PyNone \<and>
   (\<exists>did cbs. length cbs = length (crawl_strategies crawler_js) \<and>
     calls (crawl_events env_ok crawler_js example_url 0 world0) =
       RandAlnum 8 did #
       concat (map (\<lambda>(st, c, b). strategy_block 0 example_url did st c b)
                 (zip (crawl_strategies crawler_js) cbs)))"
proof -
  have h: "crawl_result env_ok crawler_js example_url 0 world0 = Inr PyNone"
    by (simp add: run_defs)
  from crawl_one_block_per_strategy[OF h] h show ?thesis by simp
qed

text \<open>
  C1 as stated fails: a crawler built with a web spider has two strategies, and a
  successful job takes two workers from the pool (here worker 0 and worker 1), loads the
  page twice and cleans up twice.
\<close>

theorem crawl_single_worker_counterexample:
  "crawl_result env_ok crawler_js_dom example_url 0 world0 = Inr PyNone \<and>
   acquired (crawl_events env_ok crawler_js_dom example_url 0 world0) = [0, 1] \<and>
   calls (crawl_events env_ok crawler_js_dom example_url 0 world0) =
     RandAlnum 8 ''abcdefgh'' #
     strategy_block 0 example_url ''abcdefgh'' ChromeCrawlerJS 0 True @
     strategy_block 0 example_url ''abcdefgh'' (ChromeCrawlerDOMDump 2) 1 True"
  by (simp add: run_defs strategy_block_def)

text \<open>
  C2 (as amended). When \<^verbatim>\<open>crawl\<close> returns normally, every worker it took from the pool
  was given back with \<^verbatim>\<open>free\<close>, once for each acquisition and in the same order, none
  was removed, and all of them are in the idle set and not in use. When \<^verbatim>\<open>crawl\<close> fails
  because a strategy raised an error (an instance of \<^verbatim>\<open>Exception\<close>), or because a call
  on the chrome instance raised one of the two interface exceptions, the worker of the
  failed call has been removed from the pool and not given back, and after the failed
  call the crawler called nothing but that \<^verbatim>\<open>remove\<close>.
\<close>

theorem worker_freed_or_evicted:
  "(crawl_result en self u q w = Inr v \<longrightarrow>
      freed (crawl_events en self u q w) = acquired (crawl_events en self u q w)
      \<and> removed (crawl_events en self u q w) = []
      \<and> length (acquired (crawl_events en self u q w)) = length (crawl_strategies self)
      \<and> set (acquired (crawl_events en self u q w)) \<subseteq> set (pool_free_set (crawl_pool en self u q w))
      \<and> set (acquired (crawl_events en self u q w)) \<inter> set (pool_in_use (crawl_pool en self u q w)) = {})
   \<and> (crawl_result en self u q w = Inl e \<and> f \<in> set (failed_calls (crawl_events en self u q w)) \<and> evicting f \<longrightarrow>
      (\<exists>c. failed_worker f = [c]
         \<and> acquired (crawl_events en self u q w) = freed (crawl_events en self u q w) @ [c]
         \<and> removed (crawl_events en self u q w) = [c]
         \<and> after_failure (crawl_events en self u q w) = [f, PoolRemove c]
         \<and> c \<notin> set (pool_free_set (crawl_pool en self u q w))
         \<and> c \<notin> set (pool_in_use (crawl_pool en self u q w))))"
proof (intro conjI impI)
  assume "crawl_result en self u q w = Inr v"
  from crawl_success[OF this] obtain did evs and cbs :: "(chrome \<times> bool) list" where
    s: "crawl_events en self u q w = RandAlnum 8 did # evs"
       "length cbs = length (crawl_strategies self)"
       "acquired evs = map fst cbs" "freed evs = map fst cbs" "removed evs = []"
       "set (pool_free_set (crawl_pool en self u q w)) = set (pool_free_set (pool w)) \<union> fst ` set cbs"
       "set (pool_in_use (crawl_pool en self u q w)) = set (pool_in_use (pool w)) - fst ` set cbs"
    by blast
  show "freed (crawl_events en self u q w) = acquired (crawl_events en self u q w)"
    using s(1,3,4) by simp
  show "removed (crawl_events en self u q w) = []" using s(1,5) by simp
  show "length (acquired (crawl_events en self u q w)) = length (crawl_strategies self)"
    using s(1,2,3) by simp
  show "set (acquired (crawl_events en self u q w)) \<subseteq> set (pool_free_set (crawl_pool en self u q w))"
    using s(1,3,6) by auto
  show "set (acquired (crawl_events en self u q w)) \<inter> set (pool_in_use (crawl_pool en self u q w)) = {}"
    using s(1,3,7) by auto
next
  assume a: "crawl_result en self u q w = Inl e \<and> f \<in> set (failed_calls (crawl_events en self u q w)) \<and> evicting f"
  from crawl_failure[of en self u q w e] a obtain did evs f' where
    s: "crawl_events en self u q w = RandAlnum 8 did # evs" "failed_calls evs = [f']"
       "acquired evs = freed evs @ failed_worker f'"
       "evicting f' \<longrightarrow> removed evs = failed_worker f'"
       "after_failure evs = f' # map PoolRemove (removed evs)"
       "\<forall>c\<in>set (failed_worker f'). c \<notin> set (pool_free_set (crawl_pool en self u q w))
            \<and> (c \<in> set (pool_in_use (crawl_pool en self u q w)) \<longleftrightarrow> \<not> evicting f')"
    by blast
  from a s(1,2) have ff: "f' = f" by simp
  from a evicting_worker obtain c where c: "failed_worker f = [c]" by blast
  show "\<exists>c. failed_worker f = [c]
         \<and> acquired (crawl_events en self u q w) = freed (crawl_events en self u q w) @ [c]
         \<and> removed (crawl_events en self u q w) = [c]
         \<and> after_failure (crawl_events en self u q w) = [f, PoolRemove c]
         \<and> c \<notin> set (pool_free_set (crawl_pool en self u q w))
         \<and> c \<notin> set (pool_in_use (crawl_pool en self u q w))"
    using a c s ff by (intro exI[of _ c]) simp
qed

theorem worker_freed_or_evicted_witness:
  "crawl_result env_ok crawler_js example_url 0 world0 = Inr PyNone
   \<and> freed (crawl_events env_ok crawler_js example_url 0 world0) = [0]
   \<and> removed (crawl_events env_ok crawler_js example_url 0 world0) = []
   \<and> 0 \<in> set (pool_free_set (crawl_pool env_ok crawler_js example_url 0 world0))
   \<and> evicting (LoadUrl 0 example_url (Inl (ChromeInterfaceTimeout ''timeout'')))
   \<and> removed (crawl_events env_load_timeout crawler_js example_url 0 world0) = [0]
   \<and> 0 \<notin> set (pool_free_set (crawl_pool env_load_timeout crawler_js example_url 0 world0))
   \<and> 0 \<notin> set (pool_in_use (crawl_pool env_load_timeout crawler_js example_url 0 world0))"
proof -
  let ?f = "LoadUrl 0 example_url (Inl (ChromeInterfaceTimeout ''timeout''))"
  let ?m = "''Failed to load http://example.test/ using chrome: '' @ [CHR 0x22] @ ''timeout'' @ [CHR 0x22]"
  have h1: "crawl_result env_ok crawler_js example_url 0 world0 = Inr PyNone"
    by (simp add: run_defs)
  have a1: "acquired (crawl_events env_ok crawler_js example_url 0 world0) = [0]"
    by (simp add: run_defs)
  have h2: "crawl_result env_load_timeout crawler_js example_url 0 world0 = Inl (ChromeCrawlerException ?m)"
    by (simp add: run_defs)
  have h3: "?f \<in> set (failed_calls (crawl_events env_load_timeout crawler_js example_url 0 world0))"
    by (simp add: run_defs)
  have h4: "evicting ?f" by (simp add: evicting_def)
  have t1: "freed (crawl_events env_ok crawler_js example_url 0 world0) = [0]
      \<and> removed (crawl_events env_ok crawler_js example_url 0 world0) = []
      \<and> 0 \<in> set (pool_free_set (crawl_pool env_ok crawler_js example_url 0 world0))"
    using worker_freed_or_evicted[of env_ok crawler_js example_url 0 world0 PyNone] h1 a1 by simp
  have t2: "removed (crawl_events env_load_timeout crawler_js example_url 0 world0) = [0]
      \<and> 0 \<notin> set (pool_free_set (crawl_pool env_load_timeout crawler_js example_url 0 world0))
      \<and> 0 \<notin> set (pool_in_use (crawl_pool env_load_timeout crawler_js example_url 0 world0))"
    using worker_freed_or_evicted[of env_load_timeout crawler_js example_url 0 world0 _
        "ChromeCrawlerException ?m" ?f] h2 h3 h4 by simp
  from h1 h4 t1 t2 show ?thesis by simp
qed

text \<open>
  C2 as stated fails: when \<^verbatim>\<open>load_url\<close> raises an exception that is not an interface
  exception, the job fails and the worker it took is neither given back nor removed; the
  pool still counts it as in use.
\<close>

theorem worker_leak_counterexample:
  "crawl_result env_load_error crawler_js example_url 0 world0 = Inl (OtherException ''boom'')
   \<and> acquired (crawl_events env_load_error crawler_js example_url 0 world0) = [0]
   \<and> freed (crawl_events env_load_error crawler_js example_url 0 world0) = []
   \<and> removed (crawl_events env_load_error crawler_js example_url 0 world0) = []
   \<and> pool_free_set (crawl_pool env_load_error crawler_js example_url 0 world0) = []
   \<and> pool_in_use (crawl_pool env_load_error crawler_js example_url 0 world0) = [0]"
  by (simp add: run_defs)

text \<open>
  C3 (as amended). When the \<^verbatim>\<open>crawl\<close> call of a strategy fails with an error, that is
  with an instance of \<^verbatim>\<open>Exception\<close> of whatever class, the job fails with that same
  exception, not wrapped in another one; the worker the strategy ran on has been removed
  from the pool and was not given back; and after the failed call the crawler calls
  nothing but that \<^verbatim>\<open>remove\<close>, so the strategies that follow in the list are not run.
\<close>

theorem strategy_failure_evicts_and_reraises:
  assumes "StrategyCrawl st c u' did (Inl e) \<in> set (crawl_events en self u q w)"
      and "is_exception e"
  shows "crawl_result en self u q w = Inl e
     \<and> after_failure (crawl_events en self u q w) = [StrategyCrawl st c u' did (Inl e), PoolRemove c]
     \<and> acquired (crawl_events en self u q w) = freed (crawl_events en self u q w) @ [c]
     \<and> removed (crawl_events en self u q w) = [c]
     \<and> c \<notin> set (pool_free_set (crawl_pool en self u q w))
     \<and> c \<notin> set (pool_in_use (crawl_pool en self u q w))"
proof -
  let ?f = "StrategyCrawl st c u' did (Inl e)"
  have m: "?f \<in> set (failed_calls (crawl_events en self u q w))"
    using assms(1) by (simp add: failed_calls_def)
  from failed_event_fails[OF m] obtain e' where r: "crawl_result en self u q w = Inl e'" by blast
  from crawl_failure[OF r] obtain did' evs f where
    s: "crawl_events en self u q w = RandAlnum 8 did' # evs" "failed_calls evs = [f]"
       "acquired evs = freed evs @ failed_worker f"
       "evicting f \<longrightarrow> removed evs = failed_worker f"
       "after_failure evs = f # map PoolRemove (removed evs)"
       "\<not> wraps f \<longrightarrow> raised_by f = Some e'"
       "\<forall>c\<in>set (failed_worker f). c \<notin> set (pool_free_set (crawl_pool en self u q w))
            \<and> (c \<in> set (pool_in_use (crawl_pool en self u q w)) \<longleftrightarrow> \<not> evicting f)"
    by blast
  from m s(1,2) have ff: "f = ?f" by simp
  have ev: "evicting ?f" using assms(2) by (simp add: evicting_def)
  have nw: "\<not> wraps ?f" by (simp add: wraps_def)
  from s(6) ff nw have "e' = e" by simp
  with r s ff ev show ?thesis by simp
qed

theorem strategy_failure_evicts_and_reraises_witness:
  "StrategyCrawl (ChromeCrawlerDOMDump 2) 1 example_url ''abcdefgh'' (Inl (OtherException ''boom''))
      \<in> set (crawl_events env_dom_dump_fails crawler_js_dom example_url 0 world0)
   \<and> is_exception (OtherException ''boom'')
   \<and> crawl_result env_dom_dump_fails crawler_js_dom example_url 0 world0 = Inl (OtherException ''boom'')
   \<and> after_failure (crawl_events env_dom_dump_fails crawler_js_dom example_url 0 world0)
        = [StrategyCrawl (ChromeCrawlerDOMDump 2) 1 example_url ''abcdefgh'' (Inl (OtherException ''boom'')),
           PoolRemove 1]
   \<and> removed (crawl_events env_dom_dump_fails crawler_js_dom example_url 0 world0) = [1]"
proof -
  have h: "StrategyCrawl (ChromeCrawlerDOMDump 2) 1 example_url ''abcdefgh'' (Inl (OtherException ''boom''))
      \<in> set (crawl_events env_dom_dump_fails crawler_js_dom example_url 0 world0)"
    by (simp add: run_defs)
  have e: "is_exception (OtherException ''boom'')" by simp
  from strategy_failure_evicts_and_reraises[OF h e] h show ?thesis by simp
qed

text \<open>
  C3 as stated fails in its last part: the exception a strategy raised reaches the
  caller as it is. Here the DOM dump strategy raises an exception that is not a
  \<^verbatim>\<open>ChromeCrawlerException\<close>, and that is what \<^verbatim>\<open>crawl\<close> raises.
\<close>

theorem strategy_failure_not_wrapped_counterexample:
  "crawl_result env_dom_dump_fails crawler_js_dom example_url 0 world0 = Inl (OtherException ''boom'')
   \<and> \<not> is_crawler_exception (OtherException ''boom'')
   \<and> failed_calls (crawl_events env_dom_dump_fails crawler_js_dom example_url 0 world0)
        = [StrategyCrawl (ChromeCrawlerDOMDump 2) 1 example_url ''abcdefgh'' (Inl (OtherException ''boom''))]"
  by (simp add: run_defs)

text \<open>
  C9 (as amended). What triggers the eviction depends on the phase. Let a call on the
  worker \<open>c\<close> fail with the exception \<open>e\<close>. If it is the call of a strategy and \<open>e\<close> is
  an instance of \<^verbatim>\<open>Exception\<close>, of whatever class, the worker is removed and \<open>e\<close> is
  raised again; if \<open>e\<close> is \<^verbatim>\<open>KeyboardInterrupt\<close>, \<^verbatim>\<open>SystemExit\<close> or \<^verbatim>\<open>GeneratorExit\<close>,
  it leaves \<^verbatim>\<open>crawl\<close> with the worker neither given back nor removed. If the failed call
  is \<^verbatim>\<open>load_url\<close>, \<^verbatim>\<open>wait_for_load\<close>, \<^verbatim>\<open>stop\<close> or \<^verbatim>\<open>load_about_blank\<close>, the worker is
  removed (and a \<^verbatim>\<open>ChromeCrawlerException\<close> raised) only when \<open>e\<close> is one of the two
  interface exceptions; any other exception leaves \<^verbatim>\<open>crawl\<close> as it is, with the worker
  neither given back nor removed: nothing is called after the failed call, and the pool
  still has the worker in use.
\<close>

theorem eviction_trigger_by_phase:
  assumes "f \<in> set (failed_calls (crawl_events en self u q w))"
      and "failed_worker f = [c]" and "raised_by f = Some e"
  shows "acquired (crawl_events en self u q w) = freed (crawl_events en self u q w) @ [c]
     \<and> (is_strategy_crawl f \<and> is_exception e \<longrightarrow>
           crawl_result en self u q w = Inl e
           \<and> removed (crawl_events en self u q w) = [c]
           \<and> after_failure (crawl_events en self u q w) = [f, PoolRemove c]
           \<and> c \<notin> set (pool_in_use (crawl_pool en self u q w))
           \<and> c \<notin> set (pool_free_set (crawl_pool en self u q w)))
     \<and> (is_strategy_crawl f \<and> \<not> is_exception e \<longrightarrow>
           crawl_result en self u q w = Inl e
           \<and> removed (crawl_events en self u q w) = []
           \<and> after_failure (crawl_events en self u q w) = [f]
           \<and> c \<in> set (pool_in_use (crawl_pool en self u q w))
           \<and> c \<notin> set (pool_free_set (crawl_pool en self u q w)))
     \<and> (\<not> is_strategy_crawl f \<and> is_chrome_interface e \<longrightarrow>
           (\<exists>m. crawl_result en self u q w = Inl (ChromeCrawlerException m))
           \<and> removed (crawl_events en self u q w) = [c]
           \<and> after_failure (crawl_events en self u q w) = [f, PoolRemove c]
           \<and> c \<notin> set (pool_in_use (crawl_pool en self u q w))
           \<and> c \<notin> set (pool_free_set (crawl_pool en self u q w)))
     \<and> (\<not> is_strategy_crawl f \<and> \<not> is_chrome_interface e \<longrightarrow>
           crawl_result en self u q w = Inl e
           \<and> removed (crawl_events en self u q w) = []
           \<and> after_failure (crawl_events en self u q w) = [f]
           \<and> c \<in> set (pool_in_use (crawl_pool en self u q w))
           \<and> c \<notin> set (pool_free_set (crawl_pool en self u q w)))"
proof -
  from failed_event_fails[OF assms(1)] obtain e' where r: "crawl_result en self u q w = Inl e'" by blast
  from crawl_failure[OF r] obtain did' evs f' where
    s: "crawl_events en self u q w = RandAlnum 8 did' # evs" "failed_calls evs = [f']"
       "acquired evs = freed evs @ failed_worker f'"
       "evicting f' \<longrightarrow> removed evs = failed_worker f'"
       "\<not> evicting f' \<longrightarrow> removed evs = []"
       "after_failure evs = f' # map PoolRemove (removed evs)"
       "wraps f' \<longrightarrow> is_crawler_exception e'"
       "\<not> wraps f' \<longrightarrow> raised_by f' = Some e'"
       "\<forall>c\<in>set (failed_worker f'). c \<notin> set (pool_free_set (crawl_pool en self u q w))
            \<and> (c \<in> set (pool_in_use (crawl_pool en self u q w)) \<longleftrightarrow> \<not> evicting f')"
    by blast
  from assms(1) s(1,2) have ff: "f' = f" by simp
  have np: "\<not> is_pool_get f" using assms(2) by (cases f) auto
  have ev: "evicting f \<longleftrightarrow> is_strategy_crawl f \<and> is_exception e \<or> is_chrome_interface e"
    using assms(3) np by (simp add: evicting_def)
  have wr: "wraps f \<longleftrightarrow> \<not> is_strategy_crawl f \<and> is_chrome_interface e"
    using assms(3) np by (simp add: wraps_def)
  have ie: "is_chrome_interface e \<Longrightarrow> is_exception e"
    by (rule chrome_interface_is_exception)
  have ce: "is_crawler_exception e' \<Longrightarrow> \<exists>m. e' = ChromeCrawlerException m"
    by (cases e') auto
  have pf: "c \<notin> set (pool_free_set (crawl_pool en self u q w))"
    using s(9) ff assms(2) by simp
  have pu: "c \<in> set (pool_in_use (crawl_pool en self u q w)) \<longleftrightarrow> \<not> evicting f"
    using s(9) ff assms(2) by simp
  have res: "\<not> wraps f \<Longrightarrow> crawl_result en self u q w = Inl e"
    using r s(8) ff assms(3) by simp
  have resw: "wraps f \<Longrightarrow> \<exists>m. crawl_result en self u q w = Inl (ChromeCrawlerException m)"
    using r s(7) ff ce by simp
  have rem: "evicting f \<Longrightarrow> removed (crawl_events en self u q w) = [c]"
    using s(1,4) ff assms(2) by simp
  have nrem: "\<not> evicting f \<Longrightarrow> removed (crawl_events en self u q w) = []"
    using s(1,5) ff by simp
  have af: "after_failure (crawl_events en self u q w)
      = f # map PoolRemove (removed (crawl_events en self u q w))"
    using s(1,6) ff by simp
  have 1: "acquired (crawl_events en self u q w) = freed (crawl_events en self u q w) @ [c]"
    using s(1,3) ff assms(2) by simp
  have 2: "is_strategy_crawl f \<and> is_exception e \<longrightarrow>
           crawl_result en self u q w = Inl e
           \<and> removed (crawl_events en self u q w) = [c]
           \<and> after_failure (crawl_events en self u q w) = [f, PoolRemove c]
           \<and> c \<notin> set (pool_in_use (crawl_pool en self u q w))
           \<and> c \<notin> set (pool_free_set (crawl_pool en self u q w))"
  proof
    assume a: "is_strategy_crawl f \<and> is_exception e"
    then have e1: "evicting f" and w1: "\<not> wraps f" using ev wr by simp_all
    from res[OF w1] rem[OF e1] af pf pu e1
    show "crawl_result en self u q w = Inl e
           \<and> removed (crawl_events en self u q w) = [c]
           \<and> after_failure (crawl_events en self u q w) = [f, PoolRemove c]
           \<and> c \<notin> set (pool_in_use (crawl_pool en self u q w))
           \<and> c \<notin> set (pool_free_set (crawl_pool en self u q w))" by simp
  qed
  have 3: "is_strategy_crawl f \<and> \<not> is_exception e \<longrightarrow>
           crawl_result en self u q w = Inl e
           \<and> removed (crawl_events en self u q w) = []
           \<and> after_failure (crawl_events en self u q w) = [f]
           \<and> c \<in> set (pool_in_use (crawl_pool en self u q w))
           \<and> c \<notin> set (pool_free_set (crawl_pool en self u q w))"
  proof
    assume a: "is_strategy_crawl f \<and> \<not> is_exception e"
    then have "\<not> is_chrome_interface e" using ie by blast
    with a have e1: "\<not> evicting f" and w1: "\<not> wraps f" using ev wr by simp_all
    from res[OF w1] nrem[OF e1] af pf pu e1
    show "crawl_result en self u q w = Inl e
           \<and> removed (crawl_events en self u q w) = []
           \<and> after_failure (crawl_events en self u q w) = [f]
           \<and> c \<in> set (pool_in_use (crawl_pool en self u q w))
           \<and> c \<notin> set (pool_free_set (crawl_pool en self u q w))" by simp
  qed
  have 4: "\<not> is_strategy_crawl f \<and> is_chrome_interface e \<longrightarrow>
           (\<exists>m. crawl_result en self u q w = Inl (ChromeCrawlerException m))
           \<and> removed (crawl_events en self u q w) = [c]
           \<and> after_failure (crawl_events en self u q w) = [f, PoolRemove c]
           \<and> c \<notin> set (pool_in_use (crawl_pool en self u q w))
           \<and> c \<notin> set (pool_free_set (crawl_pool en self u q w))"
  proof
    assume a: "\<not> is_strategy_crawl f \<and> is_chrome_interface e"
    then have e1: "evicting f" and w1: "wraps f" using ev wr by simp_all
    from resw[OF w1] rem[OF e1] af pf pu e1
    show "(\<exists>m. crawl_result en self u q w = Inl (ChromeCrawlerException m))
           \<and> removed (crawl_events en self u q w) = [c]
           \<and> after_failure (crawl_events en self u q w) = [f, PoolRemove c]
           \<and> c \<notin> set (pool_in_use (crawl_pool en self u q w))
           \<and> c \<notin> set (pool_free_set (crawl_pool en self u q w))" by simp
  qed
  have 5: "\<not> is_strategy_crawl f \<and> \<not> is_chrome_interface e \<longrightarrow>
           crawl_result en self u q w = Inl e
           \<and> removed (crawl_events en self u q w) = []
           \<and> after_failure (crawl_events en self u q w) = [f]
           \<and> c \<in> set (pool_in_use (crawl_pool en self u q w))
           \<and> c \<notin> set (pool_free_set (crawl_pool en self u q w))"
  proof
    assume a: "\<not> is_strategy_crawl f \<and> \<not> is_chrome_interface e"
    then have e1: "\<not> evicting f" and w1: "\<not> wraps f" using ev wr by simp_all
    from res[OF w1] nrem[OF e1] af pf pu e1
    show "crawl_result en self u q w = Inl e
           \<and> removed (crawl_events en self u q w) = []
           \<and> after_failure (crawl_events en self u q w) = [f]
           \<and> c \<in> set (pool_in_use (crawl_pool en self u q w))
           \<and> c \<notin> set (pool_free_set (crawl_pool en self u q w))" by simp
  qed
  from 1 2 3 4 5 show ?thesis by blast
qed

theorem eviction_trigger_by_phase_witness:
  "removed (crawl_events env_dom_dump_fails crawler_js_dom example_url 0 world0) = [1]
   \<and> crawl_result env_dom_dump_fails crawler_js_dom example_url 0 world0 = Inl (OtherException ''boom'')
   \<and> removed (crawl_events env_strategy_interrupted crawler_js example_url 0 world0) = []
   \<and> crawl_result env_strategy_interrupted crawler_js example_url 0 world0 = Inl (KeyboardInterrupt [])
   \<and> removed (crawl_events env_load_timeout crawler_js example_url 0 world0) = [0]
   \<and> (\<exists>m. crawl_result env_load_timeout crawler_js example_url 0 world0 = Inl (ChromeCrawlerException m))
   \<and> removed (crawl_events env_load_error crawler_js example_url 0 world0) = []
   \<and> crawl_result env_load_error crawler_js example_url 0 world0 = Inl (OtherException ''boom'')
   \<and> 0 \<in> set (pool_in_use (crawl_pool env_load_error crawler_js example_url 0 world0))"
proof -
  let ?f1 = "StrategyCrawl (ChromeCrawlerDOMDump 2) 1 example_url ''abcdefgh'' (Inl (OtherException ''boom''))"
  let ?f2 = "LoadUrl 0 example_url (Inl (ChromeInterfaceTimeout ''timeout''))"
  let ?f3 = "LoadUrl 0 example_url (Inl (OtherException ''boom''))"
  let ?f4 = "StrategyCrawl ChromeCrawlerJS 0 example_url ''abcdefgh'' (Inl (KeyboardInterrupt []))"
  have h1: "?f1 \<in> set (failed_calls (crawl_events env_dom_dump_fails crawler_js_dom example_url 0 world0))"
    by (simp add: run_defs)
  have h2: "?f2 \<in> set (failed_calls (crawl_events env_load_timeout crawler_js example_url 0 world0))"
    by (simp add: run_defs)
  have h3: "?f3 \<in> set (failed_calls (crawl_events env_load_error crawler_js example_url 0 world0))"
    by (simp add: run_defs)
  have h4: "?f4 \<in> set (failed_calls (crawl_events env_strategy_interrupted crawler_js example_url 0 world0))"
    by (simp add: run_defs)
  have t1: "removed (crawl_events env_dom_dump_fails crawler_js_dom example_url 0 world0) = [1]
      \<and> crawl_result env_dom_dump_fails crawler_js_dom example_url 0 world0 = Inl (OtherException ''boom'')"
    using eviction_trigger_by_phase[OF h1, of 1 "OtherException ''boom''"] by simp
  have t2: "removed (crawl_events env_load_timeout crawler_js example_url 0 world0) = [0]
      \<and> (\<exists>m. crawl_result env_load_timeout crawler_js example_url 0 world0 = Inl (ChromeCrawlerException m))"
    using eviction_trigger_by_phase[OF h2, of 0 "ChromeInterfaceTimeout ''timeout''"] by simp
  have t3: "removed (crawl_events env_load_error crawler_js example_url 0 world0) = []
      \<and> crawl_result env_load_error crawler_js example_url 0 world0 = Inl (OtherException ''boom'')
      \<and> 0 \<in> set (pool_in_use (crawl_pool env_load_error crawler_js example_url 0 world0))"
    using eviction_trigger_by_phase[OF h3, of 0 "OtherException ''boom''"] by simp
  have t4: "removed (crawl_events env_strategy_interrupted crawler_js example_url 0 world0) = []
      \<and> crawl_result env_strategy_interrupted crawler_js example_url 0 world0 = Inl (KeyboardInterrupt [])"
    using eviction_trigger_by_phase[OF h4, of 0 "KeyboardInterrupt []"] by simp
  from t1 t2 t3 t4 show ?thesis by simp
qed

text \<open>
  C9 as stated fails in its first part: a strategy whose call raises
  \<^verbatim>\<open>KeyboardInterrupt\<close> is not caught by \<^verbatim>\<open>except Exception\<close>; the exception leaves
  \<^verbatim>\<open>crawl\<close> and the worker the strategy ran on is neither given back nor removed, the
  pool still has it in use.
\<close>

theorem strategy_interrupt_not_evicted_counterexample:
  "failed_calls (crawl_events env_strategy_interrupted crawler_js example_url 0 world0)
      = [StrategyCrawl ChromeCrawlerJS 0 example_url ''abcdefgh'' (Inl (KeyboardInterrupt []))]
   \<and> crawl_result env_strategy_interrupted crawler_js example_url 0 world0 = Inl (KeyboardInterrupt [])
   \<and> acquired (crawl_events env_strategy_interrupted crawler_js example_url 0 world0) = [0]
   \<and> freed (crawl_events env_strategy_interrupted crawler_js example_url 0 world0) = []
   \<and> removed (crawl_events env_strategy_interrupted crawler_js example_url 0 world0) = []
   \<and> pool_free_set (crawl_pool env_strategy_interrupted crawler_js example_url 0 world0) = []
   \<and> pool_in_use (crawl_pool env_strategy_interrupted crawler_js example_url 0 world0) = [0]"
  by (simp add: run_defs)

text \<open>
  C7. A call of \<^verbatim>\<open>crawl\<close> draws exactly one random id, of eight characters that are
  ASCII letters or digits, as its first action, and every later event of the call that
  carries a debugging id carries that one: the wrapper around the caller's queue handed
  to \<^verbatim>\<open>pool.get\<close>, \<^verbatim>\<open>set_debugging_id\<close>, the call of every strategy, and the log lines
  of every phase.
\<close>

theorem one_debugging_id_per_crawl:
  "\<exists>did evs. crawl_events en self u q w = RandAlnum 8 did # evs
      \<and> length did = 8 \<and> set did \<subseteq> set alnum_chars
      \<and> (\<forall>ev\<in>set evs. \<not> is_rand_alnum ev \<and> set (event_ids ev) \<subseteq> {did})"
  using crawl_ids[of en self u q w] rand_alnum_length[of en "trace w" 8]
    rand_alnum_chars[of en "trace w" 8] by blast

theorem one_debugging_id_per_crawl_witness:
  "\<exists>did evs. crawl_events env_ok crawler_js_dom example_url 0 world0 = RandAlnum 8 did # evs
      \<and> length did = 8 \<and> set did \<subseteq> set alnum_chars
      \<and> (\<forall>ev\<in>set evs. \<not> is_rand_alnum ev \<and> set (event_ids ev) \<subseteq> {did})
      \<and> SetDebuggingId 1 did \<in> set evs
      \<and> StrategyCrawl (ChromeCrawlerDOMDump 2) 1 example_url did (Inr ()) \<in> set evs
      \<and> PoolGet \<lparr>cq_queue = 0, cq_debugging_id = did\<rparr> (Inr 1) \<in> set evs"
proof -
  from one_debugging_id_per_crawl[of env_ok crawler_js_dom example_url 0 world0]
  obtain did evs where
    e: "crawl_events env_ok crawler_js_dom example_url 0 world0 = RandAlnum 8 did # evs"
       "length did = 8" "set did \<subseteq> set alnum_chars"
       "\<forall>ev\<in>set evs. \<not> is_rand_alnum ev \<and> set (event_ids ev) \<subseteq> {did}" by blast
  have m: "SetDebuggingId 1 ''abcdefgh'' \<in> set (crawl_events env_ok crawler_js_dom example_url 0 world0)
     \<and> StrategyCrawl (ChromeCrawlerDOMDump 2) 1 example_url ''abcdefgh'' (Inr ())
          \<in> set (crawl_events env_ok crawler_js_dom example_url 0 world0)
     \<and> PoolGet \<lparr>cq_queue = 0, cq_debugging_id = ''abcdefgh''\<rparr> (Inr 1)
          \<in> set (crawl_events env_ok crawler_js_dom example_url 0 world0)
     \<and> hd (crawl_events env_ok crawler_js_dom example_url 0 world0) = RandAlnum 8 ''abcdefgh''"
    by (simp add: run_defs)
  from e(1) m have d: "did = ''abcdefgh''" by simp
  from e m d show ?thesis by (intro exI[of _ did] exI[of _ evs]) auto
qed

text \<open>
  C10. A call of \<^verbatim>\<open>crawl\<close> that returns normally returns \<^verbatim>\<open>None\<close>, although the cleanup
  phase, when it returns, returns \<^verbatim>\<open>True\<close>: that value never reaches the caller.
\<close>

theorem crawl_returns_none:
  "(crawl_result en self u q w = Inr v \<longrightarrow> v = PyNone)
   \<and> (fst (priv_cleanup en u c did w') = Inr v' \<longrightarrow> v' = PyBool True)"
  by (auto simp: crawl_result_def crawl_def priv_cleanup_def load_about_blank_def Let_def
      split: prod.splits sum.splits if_splits)

theorem crawl_returns_none_witness:
  "crawl_result env_ok crawler_js example_url 0 world0 = Inr PyNone
   \<and> fst (priv_cleanup env_ok example_url 0 ''abcdefgh'' world0) = Inr (PyBool True)"
proof -
  have h1: "crawl_result env_ok crawler_js example_url 0 world0 = Inr PyNone"
    by (simp add: run_defs)
  have h2: "fst (priv_cleanup env_ok example_url 0 ''abcdefgh'' world0) = Inr (PyBool True)"
    by (simp add: run_defs)
  from crawl_returns_none[of env_ok crawler_js example_url 0 world0 PyNone
      0 "''abcdefgh''" world0 "PyBool True"] h1 h2
  show ?thesis by simp
qed

text \<open>
  C8. The constructor builds the strategy list: the JS strategy is its first element, and
  the DOM dump strategy is appended as a second element exactly when a web spider was
  given, so the list is never empty and has one or two elements. Nothing changes the
  list afterwards: \<^verbatim>\<open>crawl\<close> only reads the crawler object, and \<^verbatim>\<open>terminate\<close> keeps
  the list.
\<close>

theorem strategy_list_built_at_construction:
  "crawl_strategies (fst (init en uo max_instances ws)) =
      ChromeCrawlerJS # (case ws of None \<Rightarrow> [] | Some sp \<Rightarrow> [ChromeCrawlerDOMDump sp])
   \<and> hd (crawl_strategies (fst (init en uo max_instances ws))) = ChromeCrawlerJS
   \<and> crawl_strategies (fst (init en uo max_instances ws)) \<noteq> []
   \<and> (length (crawl_strategies (fst (init en uo max_instances ws))) = 2 \<longleftrightarrow> ws \<noteq> None)
   \<and> (length (crawl_strategies (fst (init en uo max_instances ws))) = 1 \<longleftrightarrow> ws = None)
   \<and> crawl_strategies (fst (snd (terminate (fst (init en uo max_instances ws)) w)))
        = crawl_strategies (fst (init en uo max_instances ws))"
  by (cases ws) (simp_all add: init_def terminate_def Let_def)

text \<open>
  C4. When \<^verbatim>\<open>wait_for_load\<close> returns \<^verbatim>\<open>False\<close>, the initial page load logs that the
  page did not load, sends the timing line and then calls \<^verbatim>\<open>stop\<close> on the same worker;
  if \<^verbatim>\<open>stop\<close> succeeds the worker is returned to \<^verbatim>\<open>_crawl\<close> and is not removed from the
  pool. A job in which no call raises an exception returns normally, with every worker
  it took given back and in the idle set, whatever \<^verbatim>\<open>wait_for_load\<close> returned.
\<close>

theorem wait_timeout_is_not_a_failure:
  "(priv_initial_page_load en u q did w = (r, w') \<and> WaitForLoad c (Inr False) \<in> set (new_events w w') \<longrightarrow>
      (\<exists>s rest. dropWhile (\<lambda>ev. ev \<noteq> WaitForLoad c (Inr False)) (new_events w w')
            = [WaitForLoad c (Inr False), Debug (NotLoaded u did), TookLineSend (TookLoadUrl u), Stop c s] @ rest
         \<and> (s = Inr () \<longrightarrow> r = Inr c \<and> rest = [TookLineSend TookStop] \<and> removed (new_events w w') = [])))
   \<and> (failed_calls (crawl_events en self u q w) = [] \<longrightarrow>
        crawl_result en self u q w = Inr PyNone
        \<and> freed (crawl_events en self u q w) = acquired (crawl_events en self u q w)
        \<and> removed (crawl_events en self u q w) = []
        \<and> length (acquired (crawl_events en self u q w)) = length (crawl_strategies self)
        \<and> set (acquired (crawl_events en self u q w)) \<subseteq> set (pool_free_set (crawl_pool en self u q w)))"
proof (intro conjI impI)
  assume "priv_initial_page_load en u q did w = (r, w') \<and> WaitForLoad c (Inr False) \<in> set (new_events w w')"
  then show "\<exists>s rest. dropWhile (\<lambda>ev. ev \<noteq> WaitForLoad c (Inr False)) (new_events w w')
            = [WaitForLoad c (Inr False), Debug (NotLoaded u did), TookLineSend (TookLoadUrl u), Stop c s] @ rest
         \<and> (s = Inr () \<longrightarrow> r = Inr c \<and> rest = [TookLineSend TookStop] \<and> removed (new_events w w') = [])"
    using initial_page_load_after_timeout by blast
next
  assume a: "failed_calls (crawl_events en self u q w) = []"
  from no_failed_call_success[OF a] have r: "crawl_result en self u q w = Inr PyNone" .
  from crawl_success[OF r] obtain did' evs and cbs :: "(chrome \<times> bool) list" where
    s: "crawl_events en self u q w = RandAlnum 8 did' # evs"
       "length cbs = length (crawl_strategies self)"
       "acquired evs = map fst cbs" "freed evs = map fst cbs" "removed evs = []"
       "set (pool_free_set (crawl_pool en self u q w)) = set (pool_free_set (pool w)) \<union> fst ` set cbs"
    by blast
  show "crawl_result en self u q w = Inr PyNone" by (rule r)
  show "freed (crawl_events en self u q w) = acquired (crawl_events en self u q w)"
    using s(1,3,4) by simp
  show "removed (crawl_events en self u q w) = []" using s(1,5) by simp
  show "length (acquired (crawl_events en self u q w)) = length (crawl_strategies self)"
    using s(1,2,3) by simp
  show "set (acquired (crawl_events en self u q w)) \<subseteq> set (pool_free_set (crawl_pool en self u q w))"
    using s(1,3,6) by auto
qed

theorem wait_timeout_is_not_a_failure_witness:
  "WaitForLoad 0 (Inr False)
      \<in> set (new_events world0 (snd (priv_initial_page_load env_wait_timeout example_url 0 ''abcdefgh'' world0)))
   \<and> fst (priv_initial_page_load env_wait_timeout example_url 0 ''abcdefgh'' world0) = Inr 0
   \<and> WaitForLoad 0 (Inr False) \<in> set (crawl_events env_wait_timeout crawler_js example_url 0 world0)
   \<and> failed_calls (crawl_events env_wait_timeout crawler_js example_url 0 world0) = []
   \<and> crawl_result env_wait_timeout crawler_js example_url 0 world0 = Inr PyNone
   \<and> freed (crawl_events env_wait_timeout crawler_js example_url 0 world0)
        = acquired (crawl_events env_wait_timeout crawler_js example_url 0 world0)
   \<and> removed (crawl_events env_wait_timeout crawler_js example_url 0 world0) = []
   \<and> (\<exists>s rest. dropWhile (\<lambda>ev. ev \<noteq> WaitForLoad 0 (Inr False))
          (new_events world0 (snd (priv_initial_page_load env_wait_timeout example_url 0 ''abcdefgh'' world0)))
         = [WaitForLoad 0 (Inr False), Debug (NotLoaded example_url ''abcdefgh''),
            TookLineSend (TookLoadUrl example_url), Stop 0 s] @ rest)"
proof -
  let ?p = "priv_initial_page_load env_wait_timeout example_url 0 ''abcdefgh'' world0"
  have h0: "?p = (fst ?p, snd ?p)" by simp
  have h1: "WaitForLoad 0 (Inr False) \<in> set (new_events world0 (snd ?p))"
    by (simp add: run_defs)
  have h2: "fst ?p = Inr 0" by (simp add: run_defs)
  have h3: "failed_calls (crawl_events env_wait_timeout crawler_js example_url 0 world0) = []"
    by (simp add: run_defs)
  have h4: "WaitForLoad 0 (Inr False) \<in> set (crawl_events env_wait_timeout crawler_js example_url 0 world0)"
    by (simp add: run_defs)
  note t = wait_timeout_is_not_a_failure[of env_wait_timeout example_url 0 "''abcdefgh''" world0
      "fst ?p" "snd ?p" 0 crawler_js]
  from t h0 h1 h3 have
    "(\<exists>s rest. dropWhile (\<lambda>ev. ev \<noteq> WaitForLoad 0 (Inr False)) (new_events world0 (snd ?p))
         = [WaitForLoad 0 (Inr False), Debug (NotLoaded example_url ''abcdefgh''),
            TookLineSend (TookLoadUrl example_url), Stop 0 s] @ rest)
     \<and> crawl_result env_wait_timeout crawler_js example_url 0 world0 = Inr PyNone
     \<and> freed (crawl_events env_wait_timeout crawler_js example_url 0 world0)
        = acquired (crawl_events env_wait_timeout crawler_js example_url 0 world0)
     \<and> removed (crawl_events env_wait_timeout crawler_js example_url 0 world0) = []"
    by blast
  with h1 h2 h3 h4 show ?thesis by blast
qed

text \<open>
  C5 (as amended). Whenever the number of free chrome instances of the pool is not
  exactly one, both diagnostic accessors fail with an \<^verbatim>\<open>AssertionError\<close> that says how
  many there are, and call nothing. When there is exactly one, \<^verbatim>\<open>get_js_errors\<close>
  returns its list of JS errors, and \<^verbatim>\<open>print_all_console_messages\<close> prints its console
  messages in order, one after the other, and returns \<^verbatim>\<open>None\<close>: the messages are
  printed, not returned.
\<close>

theorem diagnostic_accessors:
  "(length (pool_free_set (pool w)) \<noteq> 1 \<longrightarrow>
      print_all_console_messages en w = (Inl (AssertionError (pool_size_msg w)), w)
      \<and> get_js_errors en w = (Inl (AssertionError (pool_size_msg w)), w))
   \<and> (pool_free_set (pool w) = [c] \<and> console_messages_result en (trace w) c = Inr msgs \<longrightarrow>
      fst (print_all_console_messages en w) = Inr PyNone
      \<and> new_events w (snd (print_all_console_messages en w))
           = GetConsoleMessages c (Inr msgs) # map Print msgs
      \<and> pool (snd (print_all_console_messages en w)) = pool w)
   \<and> (pool_free_set (pool w) = [c] \<and> js_errors_result en (trace w) c = Inr errs \<longrightarrow>
      fst (get_js_errors en w) = Inr (PyList errs)
      \<and> new_events w (snd (get_js_errors en w)) = [GetJsErrors c (Inr errs)]
      \<and> pool (snd (get_js_errors en w)) = pool w)"
proof (intro conjI impI)
  assume "length (pool_free_set (pool w)) \<noteq> 1"
  from assertion_fails[OF this]
  show "print_all_console_messages en w = (Inl (AssertionError (pool_size_msg w)), w)"
    and "get_js_errors en w = (Inl (AssertionError (pool_size_msg w)), w)" by simp_all
next
  assume a: "pool_free_set (pool w) = [c] \<and> console_messages_result en (trace w) c = Inr msgs"
  then have p: "print_all_console_messages en w
      = (Inr PyNone, fold (\<lambda>m. emit (Print m)) msgs (emit (GetConsoleMessages c (Inr msgs)) w))"
    by (simp add: print_all_console_messages_def get_console_messages_def Let_def)
  show "fst (print_all_console_messages en w) = Inr PyNone" using p by simp
  show "new_events w (snd (print_all_console_messages en w))
           = GetConsoleMessages c (Inr msgs) # map Print msgs"
    using p by (simp add: print_all_trace new_events_def emit_def)
  show "pool (snd (print_all_console_messages en w)) = pool w"
    using p by (simp add: print_all_pool emit_def)
next
  assume a: "pool_free_set (pool w) = [c] \<and> js_errors_result en (trace w) c = Inr errs"
  then have p: "get_js_errors en w = (Inr (PyList errs), emit (GetJsErrors c (Inr errs)) w)"
    by (simp add: get_js_errors_def chrome_get_js_errors_def Let_def)
  show "fst (get_js_errors en w) = Inr (PyList errs)" using p by simp
  show "new_events w (snd (get_js_errors en w)) = [GetJsErrors c (Inr errs)]"
    using p by (simp add: new_events_def emit_def)
  show "pool (snd (get_js_errors en w)) = pool w" using p by (simp add: emit_def)
qed

theorem diagnostic_accessors_witness:
  "length (pool_free_set (pool world0)) \<noteq> 1
   \<and> fst (print_all_console_messages env_ok world0)
        = Inl (AssertionError ''Chrome pool has 0 instances, one is required'')
   \<and> fst (get_js_errors env_ok world0)
        = Inl (AssertionError ''Chrome pool has 0 instances, one is required'')
   \<and> pool_free_set (pool world1) = [0]
   \<and> fst (print_all_console_messages env_ok world1) = Inr PyNone
   \<and> new_events world1 (snd (print_all_console_messages env_ok world1))
        = [GetConsoleMessages 0 (Inr [''hello'', ''world'']), Print ''hello'', Print ''world'']
   \<and> fst (get_js_errors env_ok world1) = Inr (PyList [])"
proof -
  have h0: "length (pool_free_set (pool world0)) \<noteq> 1" by (simp add: run_defs)
  have m: "pool_size_msg world0 = ''Chrome pool has 0 instances, one is required''"
    by (simp add: pool_size_msg_def str_nat_def char_of_48 run_defs)
  have t0: "fst (print_all_console_messages env_ok world0)
        = Inl (AssertionError ''Chrome pool has 0 instances, one is required'')
      \<and> fst (get_js_errors env_ok world0)
        = Inl (AssertionError ''Chrome pool has 0 instances, one is required'')"
    using diagnostic_accessors[of world0 env_ok] h0 m by simp
  have t1: "fst (print_all_console_messages env_ok world1) = Inr PyNone
      \<and> new_events world1 (snd (print_all_console_messages env_ok world1))
        = [GetConsoleMessages 0 (Inr [''hello'', ''world'']), Print ''hello'', Print ''world'']
      \<and> fst (get_js_errors env_ok world1) = Inr (PyList [])"
    using diagnostic_accessors[of world1 env_ok 0 "[''hello'', ''world'']" "[]"]
      world1_pool world1_trace_irrelevant by simp
  from h0 t0 t1 world1_pool show ?thesis by simp
qed

text \<open>
  C5 as stated fails in its last part: with one free chrome instance that has two
  console messages, \<^verbatim>\<open>print_all_console_messages\<close> returns \<^verbatim>\<open>None\<close>, not the sequence
  of the messages.
\<close>

theorem console_messages_not_returned_counterexample:
  "pool_free_set (pool world1) = [0]
   \<and> console_messages_result env_ok (trace world1) 0 = Inr [''hello'', ''world'']
   \<and> fst (print_all_console_messages env_ok world1) = Inr PyNone
   \<and> fst (print_all_console_messages env_ok world1) \<noteq> Inr (PyList [''hello'', ''world''])"
  by (simp add: world1_pool world1_trace_irrelevant print_all_console_messages_def
      get_console_messages_def Let_def)

text \<open>
  C6. \<^verbatim>\<open>terminate\<close> returns normally and leaves the attributes \<^verbatim>\<open>_uri_opener\<close> and
  \<^verbatim>\<open>_web_spider\<close> set to \<^verbatim>\<open>None\<close> and the pool without workers; a second call returns
  normally too and changes neither the crawler object nor the pool.
\<close>

theorem terminate_idempotent:
  "(case terminate self w of
      (r1, self1, w1) \<Rightarrow>
        r1 = Inr PyNone \<and> uri_opener self1 = None \<and> web_spider self1 = None
        \<and> pool_free_set (pool w1) = [] \<and> pool_in_use (pool w1) = []
        \<and> (case terminate self1 w1 of
              (r2, self2, w2) \<Rightarrow>
                r2 = Inr PyNone \<and> self2 = self1 \<and> pool w2 = pool w1
                \<and> new_events w1 w2 = [PoolTerminate]))"
  by (simp add: terminate_def pool_terminate_def emit_def new_events_def Let_def)

end
